theory Spec2Isabelle
  imports Complex_Main "HOL-Library.AList" "HOL-Library.Word"
begin

section \<open>Analysis methods\<close>

text \<open>
  The coordinator (\<^verbatim>\<open>CircuitAnalyzer\<close> in \<^verbatim>\<open>utils/solver.js\<close>) names analysis methods
  by string tags. The seven tags it can produce are constructors; any other tag is kept
  as \<open>OtherMethod\<close>, so that the \<^verbatim>\<open>default\<close> branches of the source stay reachable.
\<close>

datatype analysis_method =
    Series | Parallel | Ladder | Nodal | NodalModified | Mesh | MeshModified
  | OtherMethod string

section \<open>JavaScript values used by the engine\<close>

text \<open>
  Outside the equation solver, numbers are modelled as reals: every operation of the
  source on finite doubles is read as the exact operation. \<^verbatim>\<open>NaN\<close> and \<^verbatim>\<open>Infinity\<close> have
  no counterpart in this type, so a place where the source can produce them is marked
  where it occurs. The direct solving methods, whose pivot tests depend on rounding, are
  modelled over double-precision numbers (see there).
  A thrown exception is a value of \<open>js_error\<close> carrying the message.
\<close>

datatype js_error = TypeError string | Error string

text \<open>\<^verbatim>\<open>xs[i]\<close> on an array: \<^verbatim>\<open>undefined\<close> (here \<open>None\<close>) out of range.\<close>

definition js_index :: "'a list \<Rightarrow> nat \<Rightarrow> 'a option" where
  "js_index xs i = (if i < length xs then Some (xs ! i) else None)"

text \<open>\<^verbatim>\<open>v || 0\<close> on a number or \<^verbatim>\<open>undefined\<close>: the falsy values are \<^verbatim>\<open>undefined\<close> and \<open>0\<close>.\<close>

definition or_zero :: "real option \<Rightarrow> real" where
  "or_zero v = (case v of None \<Rightarrow> 0 | Some x \<Rightarrow> if x = 0 then 0 else x)"

text \<open>
  A field that the engine reads without testing its type can hold a value that is not a
  number. \<open>js_value\<close> is the part of the JavaScript values kept for such a field:
  numbers, booleans, \<^verbatim>\<open>undefined\<close> and \<^verbatim>\<open>null\<close>. Strings and objects are left out: where
  the engine meets them they act as \<^verbatim>\<open>true\<close> does (truthy and not a number), apart from
  their conversion to and from numbers.
  \<^item> \<open>truthy\<close>: the value as a condition;
  \<^item> \<open>numberOf\<close>: the number when \<^verbatim>\<open>typeof v === 'number'\<close>, \<open>None\<close> otherwise;
  \<^item> \<open>js_or\<close>: \<^verbatim>\<open>a || b\<close>;
  \<^item> \<open>orZeroAsNumber\<close>: \<^verbatim>\<open>v || 0\<close> as an operand of arithmetic, where \<^verbatim>\<open>true\<close> counts as 1.
\<close>

datatype js_value = Num real | Bool bool | Undefined | Null

fun truthy :: "js_value \<Rightarrow> bool" where
  "truthy (Num x) = (x \<noteq> 0)"
| "truthy (Bool b) = b"
| "truthy Undefined = False"
| "truthy Null = False"

fun numberOf :: "js_value \<Rightarrow> real option" where
  "numberOf (Num x) = Some x"
| "numberOf (Bool b) = None"
| "numberOf Undefined = None"
| "numberOf Null = None"

definition js_or :: "js_value \<Rightarrow> js_value \<Rightarrow> js_value" where
  "js_or a b = (if truthy a then a else b)"

fun orZeroAsNumber :: "js_value \<Rightarrow> real" where
  "orZeroAsNumber (Num x) = x"
| "orZeroAsNumber (Bool b) = (if b then 1 else 0)"
| "orZeroAsNumber Undefined = 0"
| "orZeroAsNumber Null = 0"

text \<open>
  A JavaScript \<^verbatim>\<open>Map\<close> is an insertion-ordered association list with distinct keys;
  \<^verbatim>\<open>Map.set\<close> overwrites in place or appends.
\<close>

fun map_set :: "'k \<Rightarrow> 'v \<Rightarrow> ('k \<times> 'v) list \<Rightarrow> ('k \<times> 'v) list" where
  "map_set k v [] = [(k, v)]"
| "map_set k v ((k', v') # m) = (if k' = k then (k, v) # m else (k', v') # map_set k v m)"

section \<open>Branch currents extracted by the equation solver\<close>

text \<open>
  \<^verbatim>\<open>EquationSolver.extractBranchCurrents\<close> (\<^verbatim>\<open>utils/equation_solver.js\<close>, 588-613).
  \<open>solution\<close> is \<^verbatim>\<open>solution.values\<close>, which is \<^verbatim>\<open>undefined\<close> (\<open>None\<close>) when the series
  closed form rejected its input; reading an index of \<^verbatim>\<open>undefined\<close> throws.
  \<open>branchIndexMap\<close> maps branch ids to their index.
\<close>

definition extractBranchCurrents ::
  "real list option \<Rightarrow> analysis_method \<Rightarrow> (string \<times> nat) list
     \<Rightarrow> js_error + (string \<times> real) list" where
  "extractBranchCurrents solution method branchIndexMap =
     (if method = Series then
        (case solution of
           None \<Rightarrow> Inl (TypeError ''Cannot read properties of undefined'')
         | Some sol \<Rightarrow>
             (let current = or_zero (js_index sol 0)
              in Inr (foldl (\<lambda>branchCurrents (branchId, index).
                              map_set branchId current branchCurrents) [] branchIndexMap)))
      else if method = Parallel then
        (case solution of
           None \<Rightarrow> (if branchIndexMap = [] then Inr []
                    else Inl (TypeError ''Cannot read properties of undefined''))
         | Some sol \<Rightarrow>
             Inr (foldl (\<lambda>branchCurrents (branchId, index).
                           map_set branchId (or_zero (js_index sol index)) branchCurrents)
                    [] branchIndexMap))
      else
        Inr (foldl (\<lambda>branchCurrents (branchId, index).
                      map_set branchId 0 branchCurrents) [] branchIndexMap))"

section \<open>Components, branches and meshes\<close>

text \<open>
  Component types are string tags in the source (\<^verbatim>\<open>component.type\<close>, \<^verbatim>\<open>branch.type\<close>).
  The tags the engine dispatches on are constructors; \<open>OtherType\<close> keeps the
  \<^verbatim>\<open>default\<close> branches reachable. \<open>WireTag\<close> is the tag \<^verbatim>\<open>'wire'\<close> of a branch made from a
  resistive wire.
\<close>

datatype ctype =
    Resistor | Voltage | Current | Capacitor | Inductor | Diode | Ground | WireTag
  | OtherType string

text \<open>
  The fields of \<^verbatim>\<open>Component\<close> (\<^verbatim>\<open>components/Component.js\<close>) and of its subclasses that the
  analysis engine reads or writes. Fields \<^verbatim>\<open>id\<close> and \<^verbatim>\<open>type\<close> are named \<open>comp_id\<close> and
  \<open>comp_type\<close>. An optional parameter that may be \<^verbatim>\<open>undefined\<close> is an \<open>option\<close>.
  \<^verbatim>\<open>voltage\<close> is a \<open>js_value\<close>: the electrical model hands the stored voltage of a
  capacitor on as it finds it. The other fields are used in arithmetic only and are
  numbers.
\<close>

record component =
  comp_id :: string
  comp_type :: ctype
  "value" :: real
  label :: string
  voltage :: js_value
  current :: real
  power :: real
  temperature :: "real option"
  tempCoefficient :: "real option"
  isVariable :: bool
  tapPosition :: "real option"
  forwardVoltage :: "real option"
  forwardResistance :: "real option"
  reverseResistance :: "real option"
  saturationCurrent :: "real option"
  internalResistance :: "real option"

record impedance =
  real_part :: real
  imaginary :: real

text \<open>
  A branch as built by \<^verbatim>\<open>NodeAnalyzer.identifyBranches\<close> (\<^verbatim>\<open>utils/node_analyzer.js\<close>, 334-393).
  \<^verbatim>\<open>branch.id\<close> and \<^verbatim>\<open>branch.type\<close> are \<open>branch_id\<close> and \<open>branch_type\<close>;
  \<open>branch_component\<close> is the component the branch was made from (\<open>None\<close> for a wire).
\<close>

record branch =
  branch_id :: string
  branch_type :: ctype
  componentId :: "string option"
  wireId :: "string option"
  branch_component :: "component option"
  startNodeId :: string
  endNodeId :: string
  impedance :: impedance

record mesh =
  mesh_id :: string
  branches :: "branch list"
  nodes :: "string list"

section \<open>The greedy mesh search\<close>

text \<open>
  The \<^verbatim>\<open>while\<close> loop of \<^verbatim>\<open>NodeAnalyzer.findMeshFromBranch\<close> (558-590). The first argument
  is \<^verbatim>\<open>maxIterations - iterations\<close>, the number of iterations the source's own cap still
  allows; \<open>visitedBranches\<close> is the shared \<^verbatim>\<open>Set\<close> of branch ids and is returned updated.
\<close>

fun meshWalk ::
  "nat \<Rightarrow> string \<Rightarrow> string \<Rightarrow> branch list \<Rightarrow> string set \<Rightarrow> branch list
     \<Rightarrow> branch list \<times> string set" where
  "meshWalk 0 currentNode startNode allBranches visitedBranches mesh = (mesh, visitedBranches)"
| "meshWalk (Suc remaining) currentNode startNode allBranches visitedBranches mesh =
     (if currentNode = startNode then (mesh, visitedBranches)
      else
        (case find (\<lambda>b. branch_id b \<notin> visitedBranches
                         \<and> (startNodeId b = currentNode \<or> endNodeId b = currentNode))
                allBranches of
           None \<Rightarrow> (mesh, visitedBranches)
         | Some nextBranch \<Rightarrow>
             meshWalk remaining
               (if startNodeId nextBranch = currentNode
                  then endNodeId nextBranch else startNodeId nextBranch)
               startNode allBranches
               (insert (branch_id nextBranch) visitedBranches)
               (mesh @ [nextBranch])))"

definition findMeshFromBranch ::
  "branch \<Rightarrow> branch list \<Rightarrow> string set \<Rightarrow> branch list \<times> string set" where
  "findMeshFromBranch startBranch allBranches visitedBranches =
     meshWalk (length allBranches + 1) (endNodeId startBranch) (startNodeId startBranch)
       allBranches (insert (branch_id startBranch) visitedBranches) [startBranch]"

text \<open>\<^verbatim>\<open>getNodesFromBranches\<close> (595-602): the node ids of the branches, in first-seen order.\<close>

definition set_add :: "'a \<Rightarrow> 'a list \<Rightarrow> 'a list" where
  "set_add x xs = (if x \<in> set xs then xs else xs @ [x])"

definition getNodesFromBranches :: "branch list \<Rightarrow> string list" where
  "getNodesFromBranches bs =
     foldl (\<lambda>nodeIds b. set_add (endNodeId b) (set_add (startNodeId b) nodeIds)) [] bs"

text \<open>Decimal rendering of an array length, as the template string \<^verbatim>\<open>`mesh_${n}`\<close> does.\<close>

fun digits :: "nat \<Rightarrow> string" where
  "digits n = (if n < 10 then [char_of (48 + n)]
               else digits (n div 10) @ [char_of (48 + n mod 10)])"

declare digits.simps [simp del]

text \<open>
  \<^verbatim>\<open>NodeAnalyzer.findMeshes\<close> (534-553): one walk from every branch not yet visited; the
  walk is recorded when it has more than two branches. The \<^verbatim>\<open>nodes\<close> argument of the
  source is not used by it.
\<close>

definition findMeshes_step ::
  "branch list \<Rightarrow> mesh list \<times> string set \<Rightarrow> branch \<Rightarrow> mesh list \<times> string set" where
  "findMeshes_step allBranches st startBranch =
     (let (meshes, visitedBranches) = st in
      if branch_id startBranch \<in> visitedBranches then (meshes, visitedBranches)
      else
        (let (mesh, visitedBranches') = findMeshFromBranch startBranch allBranches visitedBranches
         in if length mesh > 2
            then (meshes @ [\<lparr>mesh_id = ''mesh_'' @ digits (length meshes),
                             branches = mesh,
                             nodes = getNodesFromBranches mesh\<rparr>], visitedBranches')
            else (meshes, visitedBranches')))"

definition findMeshes :: "branch list \<Rightarrow> mesh list" where
  "findMeshes allBranches = fst (foldl (findMeshes_step allBranches) ([], {}) allBranches)"

text \<open>
  Following a branch sequence from a node: each branch is left through its other end.
  \<open>None\<close> when a branch does not touch the node reached so far. A sequence is a closed walk
  when following it from the start node of its first branch ends at that node again.
\<close>

fun followBranches :: "string \<Rightarrow> branch list \<Rightarrow> string option" where
  "followBranches n [] = Some n"
| "followBranches n (b # bs) =
     (if startNodeId b = n then followBranches (endNodeId b) bs
      else if endNodeId b = n then followBranches (startNodeId b) bs
      else None)"

definition isClosedWalk :: "branch list \<Rightarrow> bool" where
  "isClosedWalk bs =
     (case bs of [] \<Rightarrow> False
      | b # _ \<Rightarrow> followBranches (startNodeId b) bs = Some (startNodeId b))"

text \<open>A resistor branch between two nodes, for concrete circuits.\<close>

definition mkResistorBranch :: "string \<Rightarrow> string \<Rightarrow> string \<Rightarrow> real \<Rightarrow> branch" where
  "mkResistorBranch bid n1 n2 r =
     \<lparr>branch_id = bid, branch_type = Resistor, componentId = Some (''R_'' @ bid),
      wireId = None, branch_component = None, startNodeId = n1, endNodeId = n2,
      impedance = \<lparr>real_part = r, imaginary = 0\<rparr>\<rparr>"

text \<open>
  Two triangles of resistors that share the branch \<open>branch_2\<close> between \<open>n2\<close> and \<open>n0\<close>:
  \<open>n0 - n1 - n2 - n0\<close> and \<open>n0 - n3 - n4 - n2 - n0\<close>.
\<close>

definition twoLoops :: "branch list" where
  "twoLoops = [mkResistorBranch ''branch_0'' ''n0'' ''n1'' 1,
               mkResistorBranch ''branch_1'' ''n1'' ''n2'' 1,
               mkResistorBranch ''branch_2'' ''n2'' ''n0'' 1,
               mkResistorBranch ''branch_3'' ''n0'' ''n3'' 1,
               mkResistorBranch ''branch_4'' ''n3'' ''n4'' 1,
               mkResistorBranch ''branch_5'' ''n4'' ''n2'' 1]"

section \<open>The topology analysis result and the coordinator's method selection\<close>

text \<open>
  The result of \<^verbatim>\<open>NodeAnalyzer.analyzeNodes\<close> (\<^verbatim>\<open>utils/node_analyzer.js\<close>, 33-48) as far
  as the coordinator and the matrix builder read it. \<^verbatim>\<open>isValid\<close>, \<^verbatim>\<open>error\<close>, \<^verbatim>\<open>nodes\<close> and
  \<^verbatim>\<open>branches\<close> are named \<open>na_isValid\<close>, \<open>na_error\<close>, \<open>na_nodes\<close>, \<open>na_branches\<close>, and
  \<^verbatim>\<open>topology.meshes\<close> is \<open>topology_meshes\<close>. The counts
  are array lengths, hence naturals; \<^verbatim>\<open>selectOptimalMethod\<close> computes with them in \<open>int\<close>,
  because \<^verbatim>\<open>nodeCount - 1\<close> and \<^verbatim>\<open>branchCount - nodeCount + 1\<close> may be negative.
\<close>

record node =
  node_id :: string
  isGround :: bool

record topology =
  isSeriesCircuit :: bool
  isParallelCircuit :: bool
  isLadderCircuit :: bool
  description :: string
  topology_meshes :: "mesh list"

record nodeAnalysis =
  na_isValid :: bool
  na_error :: "string option"
  na_nodes :: "node list"
  na_branches :: "branch list"
  topology :: topology
  nodeCount :: nat
  branchCount :: nat
  voltageSourceCount :: nat
  currentSourceCount :: nat

text \<open>\<^verbatim>\<open>CircuitAnalyzer.selectOptimalMethod\<close> (\<^verbatim>\<open>utils/solver.js\<close>, 221-253).\<close>

definition nodalEquations :: "nodeAnalysis \<Rightarrow> int" where
  "nodalEquations na = int (nodeCount na) - 1"

definition meshEquations :: "nodeAnalysis \<Rightarrow> int" where
  "meshEquations na = int (branchCount na) - int (nodeCount na) + 1"

definition adjustedNodalComplexity :: "nodeAnalysis \<Rightarrow> int" where
  "adjustedNodalComplexity na = nodalEquations na + int (voltageSourceCount na) * 2"

definition adjustedMeshComplexity :: "nodeAnalysis \<Rightarrow> int" where
  "adjustedMeshComplexity na = meshEquations na + int (currentSourceCount na) * 2"

definition selectOptimalMethod :: "nodeAnalysis \<Rightarrow> analysis_method" where
  "selectOptimalMethod na =
     (if isSeriesCircuit (topology na) then Series
      else if isParallelCircuit (topology na) then Parallel
      else if isLadderCircuit (topology na) then Ladder
      else if adjustedNodalComplexity na \<le> adjustedMeshComplexity na
        then (if voltageSourceCount na > 0 then NodalModified else Nodal)
        else (if currentSourceCount na > 0 then MeshModified else Mesh))"

text \<open>A valid analysis result of general topology with the given four counts.\<close>

definition generalAnalysis :: "nat \<Rightarrow> nat \<Rightarrow> nat \<Rightarrow> nat \<Rightarrow> nodeAnalysis" where
  "generalAnalysis n b v c =
     \<lparr>na_isValid = True, na_error = None, na_nodes = [], na_branches = [],
      topology = \<lparr>isSeriesCircuit = False, isParallelCircuit = False, isLadderCircuit = False,
                  description = ''general'', topology_meshes = []\<rparr>,
      nodeCount = n, branchCount = b, voltageSourceCount = v, currentSourceCount = c\<rparr>"

section \<open>The linear system and the mesh matrix builder\<close>

text \<open>
  \<^verbatim>\<open>matrices.conditioning\<close> starts as the empty object and is filled by
  \<^verbatim>\<open>checkMatrixConditioning\<close>; a property that was never assigned reads \<^verbatim>\<open>undefined\<close>,
  here \<open>None\<close>. \<^verbatim>\<open>matrices.dimensions\<close> is treated the same way.
\<close>

record conditioning =
  determinant :: "real option"
  rank :: "nat option"
  isDiagonallyDominant :: "bool option"
  isSymmetric :: "bool option"
  isPositiveDefinite :: "bool option"
  isSingular :: "bool option"
  warning :: "string option"

definition emptyConditioning :: conditioning where
  "emptyConditioning =
     \<lparr>determinant = None, rank = None, isDiagonallyDominant = None, isSymmetric = None,
      isPositiveDefinite = None, isSingular = None, warning = None\<rparr>"

record dimensions =
  rows :: "nat option"
  cols :: "nat option"
  variables :: "nat option"
  meshCount :: "nat option"
  totalResistance :: "real option"
  totalVoltage :: "real option"
  sourceVoltage :: "real option"

definition emptyDimensions :: dimensions where
  "emptyDimensions =
     \<lparr>rows = None, cols = None, variables = None, meshCount = None,
      totalResistance = None, totalVoltage = None, sourceVoltage = None\<rparr>"

text \<open>
  The \<^verbatim>\<open>matrices\<close> object of \<^verbatim>\<open>CircuitMatrixBuilder.buildSystemMatrices\<close>
  (\<^verbatim>\<open>utils/circuit_matrix.js\<close>, 18-29). \<^verbatim>\<open>method\<close> is named \<open>analysisMethod\<close>;
  \<open>conditioning\<close> is an option because \<^verbatim>\<open>selectSolverMethod\<close> tests \<^verbatim>\<open>!conditioning\<close>.
\<close>

record matrices =
  analysisMethod :: analysis_method
  systemMatrix :: "real list list option"
  rightHandSide :: "real list option"
  nodeIndexMap :: "(string \<times> nat) list"
  branchIndexMap :: "(string \<times> nat) list"
  groundNodeId :: "string option"
  dimensions :: dimensions
  conditioning :: "conditioning option"

text \<open>\<^verbatim>\<open>x || 0\<close> on a number: \<open>0\<close> is the only falsy real.\<close>

definition num_or_zero :: "real \<Rightarrow> real" where
  "num_or_zero x = (if x = 0 then 0 else x)"

definition createMatrix :: "nat \<Rightarrow> nat \<Rightarrow> real list list" where
  "createMatrix nrows ncols = replicate nrows (replicate ncols 0)"

text \<open>\<^verbatim>\<open>findSharedBranches\<close> (303-307): the branches of the first mesh whose id occurs in the second.\<close>

definition findSharedBranches :: "mesh \<Rightarrow> mesh \<Rightarrow> branch list" where
  "findSharedBranches mesh1 mesh2 =
     filter (\<lambda>branch1. list_ex (\<lambda>branch2. branch_id branch1 = branch_id branch2) (branches mesh2))
       (branches mesh1)"

text \<open>The \<^verbatim>\<open>reduce\<close> used for both kinds of entry (286-288, 292-294).\<close>

definition sumImpedance :: "branch list \<Rightarrow> real" where
  "sumImpedance bs = foldl (\<lambda>sum b. sum + num_or_zero (real_part (impedance b))) 0 bs"

definition meshEntry :: "mesh list \<Rightarrow> nat \<Rightarrow> nat \<Rightarrow> real" where
  "meshEntry meshes i j =
     (if i = j then sumImpedance (branches (meshes ! i))
      else sumImpedance (findSharedBranches (meshes ! i) (meshes ! j)))"

text \<open>
  \<^verbatim>\<open>buildMeshImpedanceMatrix\<close> (279-298): the two nested \<^verbatim>\<open>forEach\<close> loops assign
  \<^verbatim>\<open>Z[i][j]\<close> for every pair of mesh indices. \<open>Z0\<close> is the matrix the caller created;
  \<^verbatim>\<open>buildMeshMatrices\<close> passes the \<open>m \<times> m\<close> zero matrix, so every write is in range.
\<close>

definition buildMeshImpedanceMatrix :: "mesh list \<Rightarrow> real list list \<Rightarrow> real list list" where
  "buildMeshImpedanceMatrix meshes Z0 =
     foldl (\<lambda>Z i. foldl (\<lambda>Z j. Z[i := (Z ! i)[j := meshEntry meshes i j]]) Z [0..<length meshes])
       Z0 [0..<length meshes]"

text \<open>
  \<^verbatim>\<open>buildMeshVoltageVector\<close> (312-325) with \<^verbatim>\<open>getVoltageSourcePolarity\<close> (330-334), which
  always answers 1. Reading \<^verbatim>\<open>branch.component.value\<close> of a branch without a component throws.
\<close>

definition getVoltageSourcePolarity :: "branch \<Rightarrow> mesh \<Rightarrow> real" where
  "getVoltageSourcePolarity voltageSource m = 1"

fun foldl_err :: "('a \<Rightarrow> 'b \<Rightarrow> js_error + 'a) \<Rightarrow> 'a \<Rightarrow> 'b list \<Rightarrow> js_error + 'a" where
  "foldl_err f a [] = Inr a"
| "foldl_err f a (x # xs) = (case f a x of Inl e \<Rightarrow> Inl e | Inr a' \<Rightarrow> foldl_err f a' xs)"

definition meshVoltage :: "mesh \<Rightarrow> js_error + real" where
  "meshVoltage m =
     foldl_err (\<lambda>sum b.
         if branch_type b = Voltage then
           (case branch_component b of
              None \<Rightarrow> Inl (TypeError ''Cannot read properties of undefined'')
            | Some c \<Rightarrow> Inr (sum + getVoltageSourcePolarity b m * value c))
         else Inr sum)
       0 (branches m)"

definition buildMeshVoltageVector :: "mesh list \<Rightarrow> js_error + real list" where
  "buildMeshVoltageVector meshes =
     foldl_err (\<lambda>E m. case meshVoltage m of Inl e \<Rightarrow> Inl e | Inr v \<Rightarrow> Inr (E @ [v])) [] meshes"

text \<open>
  \<^verbatim>\<open>buildMeshMatrices\<close> (243-274). \<open>meshes\<close> is \<^verbatim>\<open>nodeAnalysis.topology.meshes\<close>. The error
  message is the source's, written without its accent.
\<close>

definition buildMeshMatrices :: "mesh list \<Rightarrow> matrices \<Rightarrow> js_error + matrices" where
  "buildMeshMatrices meshes mats =
     (let m = length meshes in
      if m = 0 then Inl (Error ''No se encontraron mallas independientes para analisis'')
      else
        (let Z = buildMeshImpedanceMatrix meshes (createMatrix m m) in
         case buildMeshVoltageVector meshes of
           Inl e \<Rightarrow> Inl e
         | Inr E \<Rightarrow>
             Inr (mats\<lparr>systemMatrix := Some Z, rightHandSide := Some E,
                       dimensions := emptyDimensions\<lparr>rows := Some m, cols := Some m,
                                       variables := Some m, meshCount := Some m\<rparr>\<rparr>)))"

definition emptyMatrices :: "analysis_method \<Rightarrow> matrices" where
  "emptyMatrices m =
     \<lparr>analysisMethod = m, systemMatrix = None, rightHandSide = None, nodeIndexMap = [],
      branchIndexMap = [], groundNodeId = None, dimensions = emptyDimensions,
      conditioning = Some emptyConditioning\<rparr>"

definition branchIds :: "branch list \<Rightarrow> string set" where
  "branchIds bs = branch_id ` set bs"

definition meshesDisjoint :: "mesh list \<Rightarrow> bool" where
  "meshesDisjoint ms \<longleftrightarrow>
     (\<forall>i < length ms. \<forall>j < length ms. i \<noteq> j \<longrightarrow>
        branchIds (branches (ms ! i)) \<inter> branchIds (branches (ms ! j)) = {})"

definition meshInv :: "mesh list \<times> string set \<Rightarrow> bool" where
  "meshInv st \<longleftrightarrow>
     meshesDisjoint (fst st) \<and> (\<forall>m \<in> set (fst st). branchIds (branches m) \<subseteq> snd st)"

definition mkMesh :: "string \<Rightarrow> branch list \<Rightarrow> mesh" where
  "mkMesh mid bs = \<lparr>mesh_id = mid, branches = bs, nodes = getNodesFromBranches bs\<rparr>"

section \<open>The electrical model\<close>

text \<open>
  \<^verbatim>\<open>OhmLawHelper\<close> (\<^verbatim>\<open>utils/ohm_law_helper.js\<close>). Its \<^verbatim>\<open>tolerance\<close> is the constant
  \<open>1e-12\<close>. \<^verbatim>\<open>v || d\<close> on an optional number is \<open>or_else\<close>.
\<close>

definition ohmTolerance :: real where
  "ohmTolerance = 1 / 10 ^ 12"

definition or_else :: "real option \<Rightarrow> real \<Rightarrow> real" where
  "or_else v d = (case v of None \<Rightarrow> d | Some x \<Rightarrow> if x = 0 then d else x)"

text \<open>\<^verbatim>\<open>getEffectiveResistance\<close> (776-792).\<close>

definition getEffectiveResistance :: "'a component_scheme \<Rightarrow> real" where
  "getEffectiveResistance resistor =
     (let baseResistance = value resistor;
          baseResistance =
            (case (temperature resistor, tempCoefficient resistor) of
               (Some t, Some k) \<Rightarrow> baseResistance * (1 + (k * (t - 25) / 1000000))
             | _ \<Rightarrow> baseResistance);
          baseResistance =
            (if isVariable resistor
             then (case tapPosition resistor of
                     Some tap \<Rightarrow> baseResistance * tap | None \<Rightarrow> baseResistance)
             else baseResistance)
      in baseResistance)"

definition calculateResistorVoltage :: "'a component_scheme \<Rightarrow> real \<Rightarrow> real" where
  "calculateResistorVoltage resistor i = i * getEffectiveResistance resistor"

definition calculateResistorCurrent :: "'a component_scheme \<Rightarrow> real \<Rightarrow> real" where
  "calculateResistorCurrent resistor v =
     (let effectiveResistance = getEffectiveResistance resistor
      in if effectiveResistance > ohmTolerance then v / effectiveResistance else 0)"

definition calculateResistorPower :: "'a component_scheme \<Rightarrow> real \<Rightarrow> real \<Rightarrow> real" where
  "calculateResistorPower resistor v i =
     (let effectiveResistance = getEffectiveResistance resistor
      in if \<bar>i\<bar> > ohmTolerance then i * i * effectiveResistance
         else if \<bar>v\<bar> > ohmTolerance then v * v / effectiveResistance
         else \<bar>v * i\<bar>)"

text \<open>
  Capacitor, inductor and diode formulas (797-895); \<open>deltaTime\<close> defaults to \<open>1e-3\<close>.
  For a current below the tolerance \<^verbatim>\<open>calculateCapacitorVoltage\<close> returns
  \<^verbatim>\<open>capacitor.voltage || 0\<close> as it is (800), whatever its type.
\<close>

definition defaultDeltaTime :: real where
  "defaultDeltaTime = 1 / 10 ^ 3"

definition calculateCapacitorVoltage :: "'a component_scheme \<Rightarrow> real \<Rightarrow> real \<Rightarrow> js_value" where
  "calculateCapacitorVoltage capacitor i deltaTime =
     (if \<bar>i\<bar> < ohmTolerance then js_or (voltage capacitor) (Num 0)
      else Num (orZeroAsNumber (voltage capacitor) + (i * deltaTime) / value capacitor))"

definition calculateCapacitorCurrent :: "'a component_scheme \<Rightarrow> real \<Rightarrow> real \<Rightarrow> real" where
  "calculateCapacitorCurrent capacitor v deltaTime =
     (if deltaTime \<le> 0 then 0
      else value capacitor * ((v - orZeroAsNumber (voltage capacitor)) / deltaTime))"

definition calculateCapacitorPower :: "'a component_scheme \<Rightarrow> real \<Rightarrow> real \<Rightarrow> real" where
  "calculateCapacitorPower capacitor v i = v * i"

definition calculateInductorVoltage :: "'a component_scheme \<Rightarrow> real \<Rightarrow> real \<Rightarrow> real" where
  "calculateInductorVoltage inductor i deltaTime =
     (if \<bar>i - num_or_zero (current inductor)\<bar> < ohmTolerance then 0
      else value inductor * ((i - num_or_zero (current inductor)) / deltaTime))"

definition calculateInductorCurrent :: "'a component_scheme \<Rightarrow> real \<Rightarrow> real \<Rightarrow> real" where
  "calculateInductorCurrent inductor v deltaTime =
     (if deltaTime \<le> 0 then num_or_zero (current inductor)
      else num_or_zero (current inductor) + (v * deltaTime) / value inductor)"

definition calculateInductorPower :: "'a component_scheme \<Rightarrow> real \<Rightarrow> real \<Rightarrow> real" where
  "calculateInductorPower inductor v i = v * i"

definition calculateDiodeVoltage :: "'a component_scheme \<Rightarrow> real \<Rightarrow> real" where
  "calculateDiodeVoltage diode i =
     (let fwdVoltage = or_else (forwardVoltage diode) 0.7;
          seriesResistance = or_else (forwardResistance diode) 0.1
      in if i > 0 then fwdVoltage + i * seriesResistance
         else i * or_else (reverseResistance diode) (10 ^ 6))"

definition calculateDiodeCurrent :: "'a component_scheme \<Rightarrow> real \<Rightarrow> real" where
  "calculateDiodeCurrent diode v =
     (let fwdVoltage = or_else (forwardVoltage diode) 0.7;
          seriesResistance = or_else (forwardResistance diode) 0.1
      in if v > fwdVoltage then (v - fwdVoltage) / seriesResistance
         else or_else (saturationCurrent diode) (1 / 10 ^ 12))"

definition calculateDiodePower :: "'a component_scheme \<Rightarrow> real \<Rightarrow> real \<Rightarrow> real" where
  "calculateDiodePower diode v i = \<bar>v * i\<bar>"

text \<open>
  \<^verbatim>\<open>calculateVoltage\<close> (592-619), \<^verbatim>\<open>calculateCurrent\<close> (624-652) and \<^verbatim>\<open>calculatePower\<close>
  (657-693). The first argument is \<open>None\<close> for a missing component (\<^verbatim>\<open>null\<close>); a numeric
  argument is \<open>None\<close> when the caller passes something that is not a number, which is
  what the guards at the head of each function test. The voltage that
  \<^verbatim>\<open>calculateVoltage\<close> returns is a \<open>js_value\<close>: it is a number for every type but the
  capacitor. Messages are written without accents.
\<close>

definition calculateVoltage ::
  "'a component_scheme option \<Rightarrow> real option \<Rightarrow> js_error + js_value" where
  "calculateVoltage cmp cur =
     (case (cmp, cur) of
        (Some c, Some i) \<Rightarrow>
          Inr (case comp_type c of
                 Resistor \<Rightarrow> Num (calculateResistorVoltage c i)
               | Capacitor \<Rightarrow> calculateCapacitorVoltage c i defaultDeltaTime
               | Inductor \<Rightarrow> Num (calculateInductorVoltage c i defaultDeltaTime)
               | Diode \<Rightarrow> Num (calculateDiodeVoltage c i)
               | Voltage \<Rightarrow> Num (value c)
               | Current \<Rightarrow> Num 0
               | _ \<Rightarrow> Num (\<bar>i\<bar> * num_or_zero (value c)))
      | _ \<Rightarrow> Inl (Error ''Parametros invalidos para calculo de voltaje''))"

definition calculateCurrent :: "'a component_scheme option \<Rightarrow> real option \<Rightarrow> js_error + real" where
  "calculateCurrent cmp volt =
     (case (cmp, volt) of
        (Some c, Some v) \<Rightarrow>
          Inr (case comp_type c of
                 Resistor \<Rightarrow> calculateResistorCurrent c v
               | Capacitor \<Rightarrow> calculateCapacitorCurrent c v defaultDeltaTime
               | Inductor \<Rightarrow> calculateInductorCurrent c v defaultDeltaTime
               | Diode \<Rightarrow> calculateDiodeCurrent c v
               | Voltage \<Rightarrow> 0
               | Current \<Rightarrow> value c
               | _ \<Rightarrow> (if value c = 0 then 0
                       else if value c > ohmTolerance then v / value c else 0))
      | _ \<Rightarrow> Inl (Error ''Parametros invalidos para calculo de corriente''))"

definition calculatePower ::
  "real option \<Rightarrow> real option \<Rightarrow> 'a component_scheme option \<Rightarrow> js_error + real" where
  "calculatePower volt cur cmp =
     (case (volt, cur) of
        (Some v, Some i) \<Rightarrow>
          Inr (let powerVI = \<bar>v * i\<bar> in
               case cmp of
                 None \<Rightarrow> powerVI
               | Some c \<Rightarrow>
                   (case comp_type c of
                      Resistor \<Rightarrow> calculateResistorPower c v i
                    | Capacitor \<Rightarrow> calculateCapacitorPower c v i
                    | Inductor \<Rightarrow> calculateInductorPower c v i
                    | Diode \<Rightarrow> calculateDiodePower c v i
                    | Voltage \<Rightarrow> v * i
                    | Current \<Rightarrow> v * i
                    | _ \<Rightarrow> powerVI))
      | _ \<Rightarrow> Inl (Error ''Parametros invalidos para calculo de potencia''))"

section \<open>Voltage sources\<close>

text \<open>
  \<^verbatim>\<open>VoltageSource\<close> (\<^verbatim>\<open>components/VoltageSource.js\<close>) extends \<^verbatim>\<open>Component\<close>. \<^verbatim>\<open>a % b\<close> on
  numbers is the remainder of the division truncated towards zero.
\<close>

datatype source_type = Dc | Ac | Pulse | Ramp | OtherSource string

record voltageSource = component +
  sourceType :: source_type
  frequency :: real
  phase :: real
  amplitude :: real
  offset :: real
  dutyCycle :: real
  riseTime :: real
  fallTime :: real
  compliance :: real
  isEnabled :: bool
  outputVoltage :: real
  outputCurrent :: real

definition js_rem :: "real \<Rightarrow> real \<Rightarrow> real" where
  "js_rem a b = a - b * of_int (if a / b < 0 then \<lceil>a / b\<rceil> else \<lfloor>a / b\<rfloor>)"

text \<open>The \<^verbatim>\<open>switch\<close> of \<^verbatim>\<open>getOutputVoltage\<close> (217-241); \<open>voltage\<close> stays 0 for an unknown type.\<close>

definition waveformVoltage :: "voltageSource \<Rightarrow> real \<Rightarrow> real" where
  "waveformVoltage src time =
     (case sourceType src of
        Dc \<Rightarrow> value src
      | Ac \<Rightarrow> amplitude src * sin (2 * pi * frequency src * time + phase src) + offset src
      | Pulse \<Rightarrow>
          (let period = 1 / frequency src; cycleTime = js_rem time period
           in if cycleTime < period * dutyCycle src then value src else 0)
      | Ramp \<Rightarrow>
          (let rampPeriod = riseTime src + fallTime src; rampCycleTime = js_rem time rampPeriod
           in if rampCycleTime < riseTime src
              then value src * (rampCycleTime / riseTime src)
              else value src * (1 - (rampCycleTime - riseTime src) / fallTime src))
      | OtherSource _ \<Rightarrow> 0)"

text \<open>
  \<^verbatim>\<open>getOutputVoltage\<close> (212-253): returns the voltage and the source with
  \<^verbatim>\<open>outputVoltage\<close> updated; a disabled source answers 0 and is left as it is.
\<close>

definition getOutputVoltage :: "voltageSource \<Rightarrow> real \<Rightarrow> real \<times> voltageSource" where
  "getOutputVoltage src time =
     (if \<not> isEnabled src then (0, src)
      else
        (let v = waveformVoltage src time;
             v = (case internalResistance src of
                    Some r \<Rightarrow> if r > 0 \<and> outputCurrent src \<noteq> 0
                              then v - outputCurrent src * r else v
                  | None \<Rightarrow> v);
             v = max (- compliance src) (min (compliance src) v)
         in (v, src\<lparr>outputVoltage := v\<rparr>)))"

text \<open>A 12 V source with 1 ohm internal resistance and the default compliance \<open>12 * 1.1\<close>.\<close>

definition exampleSource :: voltageSource where
  "exampleSource =
     \<lparr>comp_id = ''voltage_1'', comp_type = Voltage, value = 12, label = ''voltage_1'',
      voltage = Num 0, current = 0, power = 0, temperature = Some 25, tempCoefficient = None,
      isVariable = False, tapPosition = None, forwardVoltage = None, forwardResistance = None,
      reverseResistance = None, saturationCurrent = None, internalResistance = Some 1,
      sourceType = Dc, frequency = 60, phase = 0, amplitude = 12, offset = 0, dutyCycle = 0.5,
      riseTime = 0.001, fallTime = 0.001, compliance = 13.2, isEnabled = True,
      outputVoltage = 12, outputCurrent = 2\<rparr>"

text \<open>
  The voltage the specification states for a voltage source excited by a current \<open>i\<close>:
  the nominal value minus \<open>i\<close> times the internal resistance, clamped to plus or minus the
  compliance.
\<close>

definition claimedSourceVoltage :: "voltageSource \<Rightarrow> real \<Rightarrow> real" where
  "claimedSourceVoltage src i =
     max (- compliance src)
       (min (compliance src) (value src - i * or_else (internalResistance src) 0))"

section \<open>Circuits and their validation\<close>

text \<open>
  A wire (\<^verbatim>\<open>components/Wire.js\<close>) as far as the engine reads it; \<^verbatim>\<open>id\<close>, \<^verbatim>\<open>current\<close>,
  \<^verbatim>\<open>voltage\<close> and \<^verbatim>\<open>power\<close> carry the prefix \<open>wire_\<close>. A circuit is the ordered collection of
  its components and of its wires.
\<close>

record wire =
  wire_id :: string
  startComponent :: "string option"
  endComponent :: "string option"
  resistance :: real
  wire_current :: real
  wire_voltage :: real
  wire_power :: real

record circuit =
  components :: "component list"
  wires :: "wire list"

text \<open>\<^verbatim>\<open>Array.prototype.join\<close>.\<close>

fun join :: "string \<Rightarrow> string list \<Rightarrow> string" where
  "join sep [] = []"
| "join sep [x] = x"
| "join sep (x # y # ys) = x @ sep @ join sep (y # ys)"

text \<open>
  \<^verbatim>\<open>CircuitAnalyzer.validateComponent\<close> (\<^verbatim>\<open>utils/solver.js\<close>, 163-216). The result fields
  carry the prefix \<open>cv_\<close>. The first check of the source rejects a value that is not a
  number; \<open>value\<close> is a real here, so that check never fires and is left out. Messages
  are written without accents.
\<close>

record componentValidation =
  cv_isValid :: bool
  cv_error :: string
  cv_warnings :: "string list"

definition validateComponent :: "component \<Rightarrow> componentValidation" where
  "validateComponent c =
     (let (errors, warnings) =
        (case comp_type c of
           Resistor \<Rightarrow>
             ((if value c \<le> 0 then [''La resistencia debe ser mayor que cero''] else []),
              (if value c < 0.1
                 then [''Resistencia muy baja: puede causar problemas numericos''] else [])
              @ (if value c > 10 ^ 12
                 then [''Resistencia muy alta: puede causar problemas numericos''] else []))
         | Voltage \<Rightarrow>
             ([], if \<bar>value c\<bar> > 1000 then [''Voltaje muy alto: verificar seguridad''] else [])
         | Current \<Rightarrow>
             ([], if \<bar>value c\<bar> > 100 then [''Corriente muy alta: verificar seguridad''] else [])
         | Capacitor \<Rightarrow>
             ((if value c \<le> 0 then [''La capacitancia debe ser mayor que cero''] else []), [])
         | Inductor \<Rightarrow>
             ((if value c \<le> 0 then [''La inductancia debe ser mayor que cero''] else []), [])
         | _ \<Rightarrow> ([], []))
      in \<lparr>cv_isValid = (errors = []), cv_error = join ''; '' errors, cv_warnings = warnings\<rparr>)"

text \<open>
  \<^verbatim>\<open>CircuitAnalyzer.validateCircuit\<close> (95-158); result fields carry the prefix \<open>v_\<close>.
  \<^verbatim>\<open>NodeAnalyzer.checkBasicConnectivity\<close> is a parameter: it answers whether the component
  graph is connected, or throws. The checks on the component counts (105-129) are
  \<open>structuralErrors\<close> and \<open>structuralWarnings\<close>; the loop over the components (132-138) is
  \<open>componentErrors\<close> and \<open>componentWarnings\<close>. The guard on a missing \<^verbatim>\<open>components\<close> or \<^verbatim>\<open>wires\<close> array is
  excluded by the type of circuits.
\<close>

record componentCounts =
  count_voltageSources :: nat
  count_currentSources :: nat
  count_resistors :: nat
  count_grounds :: nat
  count_total :: nat

record circuitValidation =
  v_isValid :: bool
  v_error :: string
  v_warnings :: "string list"
  v_componentCounts :: componentCounts

definition componentErrors :: "component list \<Rightarrow> string list" where
  "componentErrors cs =
     concat (map (\<lambda>c. let cv = validateComponent c
                       in if \<not> cv_isValid cv then [label c @ '': '' @ cv_error cv] else []) cs)"

definition componentWarnings :: "component list \<Rightarrow> string list" where
  "componentWarnings cs = concat (map (\<lambda>c. cv_warnings (validateComponent c)) cs)"

definition countType :: "ctype \<Rightarrow> component list \<Rightarrow> nat" where
  "countType t cs = length (filter (\<lambda>c. comp_type c = t) cs)"

definition structuralErrors :: "component list \<Rightarrow> string list" where
  "structuralErrors cs =
     (if length cs = 0 then [''El circuito no contiene componentes''] else [])
     @ (if countType Voltage cs = 0 \<and> countType Current cs = 0
        then [''El circuito debe tener al menos una fuente de voltaje o corriente'']
        else [])"

definition structuralWarnings :: "component list \<Rightarrow> string list" where
  "structuralWarnings cs =
     (if countType Resistor cs = 0
        then [''Circuito sin resistencias: puede tener comportamiento inestable'']
        else [])
     @ (if countType Ground cs = 0
        then [''No se encontro referencia a tierra: se asignara automaticamente'']
        else [])
     @ (if countType Ground cs > 1 then [''Multiples referencias a tierra detectadas''] else [])"

definition countComponents :: "component list \<Rightarrow> componentCounts" where
  "countComponents cs =
     \<lparr>count_voltageSources = countType Voltage cs,
      count_currentSources = countType Current cs,
      count_resistors = countType Resistor cs,
      count_grounds = countType Ground cs,
      count_total = length cs\<rparr>"

definition validateCircuit ::
  "(circuit \<Rightarrow> js_error + bool) \<Rightarrow> circuit \<Rightarrow> js_error + circuitValidation" where
  "validateCircuit checkBasicConnectivity circ =
     (let cs = components circ;
          errors = structuralErrors cs @ componentErrors cs;
          warnings = structuralWarnings cs @ componentWarnings cs
      in case checkBasicConnectivity circ of
           Inl e \<Rightarrow> Inl e
         | Inr isConnected \<Rightarrow>
             (let errors = errors @ (if \<not> isConnected
                                      then [''Circuito contiene componentes desconectados'']
                                      else [])
              in Inr \<lparr>v_isValid = (length errors = 0),
                      v_error = join ''; '' errors,
                      v_warnings = filter (\<lambda>w. length w > 0) warnings,
                      v_componentCounts = countComponents cs\<rparr>))"

section \<open>The coordinator\<close>

text \<open>
  The result of \<^verbatim>\<open>EquationSolver.solve\<close> as the coordinator reads it (prefix \<open>sol_\<close>):
  \<^verbatim>\<open>nodeVoltages\<close> is an array and \<^verbatim>\<open>branchCurrents\<close> a \<^verbatim>\<open>Map\<close>; both are absent from
  the result that \<^verbatim>\<open>solve\<close> builds in its \<^verbatim>\<open>catch\<close>.
\<close>

record solution =
  sol_isValid :: bool
  sol_error :: "string option"
  sol_nodeVoltages :: "real list option"
  sol_branchCurrents :: "(string \<times> real) list option"

text \<open>
  One entry of \<^verbatim>\<open>results.componentValues\<close> (\<^verbatim>\<open>utils/solver.js\<close>, 330-336), prefix \<open>val_\<close>;
  its \<^verbatim>\<open>impedance\<close> entry is not modelled.
\<close>

record componentValue =
  val_current :: real
  val_voltage :: js_value
  val_power :: real
  val_resistance :: "real option"

text \<open>
  The object \<^verbatim>\<open>analyzeCircuit\<close> returns. \<^verbatim>\<open>isValid\<close>, \<^verbatim>\<open>error\<close>, \<^verbatim>\<open>warnings\<close> and \<^verbatim>\<open>method\<close>
  carry the prefix \<open>res_\<close>. A property the object does not have is \<open>None\<close> or empty.
  \<open>'pa\<close> is the power analysis of \<^verbatim>\<open>OhmLawHelper.calculatePowerAnalysis\<close> and \<open>'tm\<close> the
  totals that \<^verbatim>\<open>calculateTotalMetrics\<close> writes; both are computed by parameters of the
  model and only stored.
\<close>

record ('pa, 'tm) analysisResult =
  res_isValid :: bool
  res_error :: "string option"
  res_warnings :: "string list option"
  fromCache :: "bool option"
  res_method :: "analysis_method option"
  timestamp :: "nat option"
  nodeVoltages :: "(string \<times> real) list"
  branchCurrents :: "(string \<times> real) list"
  componentValues :: "(string \<times> componentValue) list"
  currentFlow :: "(string \<times> real) list"
  circuitType :: "string option"
  powerAnalysis :: "'pa option"
  totalMetrics :: "'tm option"

definition invalidResult :: "string option \<Rightarrow> string list option \<Rightarrow> ('pa, 'tm) analysisResult" where
  "invalidResult err warns =
     \<lparr>res_isValid = False, res_error = err, res_warnings = warns, fromCache = None,
      res_method = None, timestamp = None, nodeVoltages = [], branchCurrents = [],
      componentValues = [], currentFlow = [], circuitType = None, powerAnalysis = None,
      totalMetrics = None\<rparr>"

text \<open>
  The collaborators of \<^verbatim>\<open>analyzeCircuit\<close> that are taken as parameters. Each of them
  only reads the circuit (the only assignments to \<^verbatim>\<open>voltage\<close>, \<^verbatim>\<open>current\<close> or \<^verbatim>\<open>power\<close> of a
  component on the analysis path are those of \<^verbatim>\<open>assignCurrentToComponent\<close>, and none is
  made to a wire), and each of \<^verbatim>\<open>analyzeNodes\<close>, \<^verbatim>\<open>buildSystemMatrices\<close> and \<^verbatim>\<open>solve\<close> catches
  its own exceptions and answers with an invalid result instead.
  \<^item> \<open>jsonStringify\<close>: \<^verbatim>\<open>JSON.stringify\<close> on the fingerprint data, as UTF-16 code units;
  \<^item> \<open>checkBasicConnectivity\<close>: \<^verbatim>\<open>NodeAnalyzer.checkBasicConnectivity\<close>;
  \<^item> \<open>analyzeNodes\<close>: \<^verbatim>\<open>NodeAnalyzer.analyzeNodes\<close>;
  \<^item> \<open>buildSystemMatrices\<close>: \<^verbatim>\<open>CircuitMatrixBuilder.buildSystemMatrices\<close>, \<open>Inl\<close> its error;
  \<^item> \<open>solve\<close>: \<^verbatim>\<open>EquationSolver.solve\<close>;
  \<^item> \<open>calculatePowerAnalysis\<close>, \<open>calculateTotalMetrics\<close>: the diagnostics of the same names;
  \<^item> \<open>powerBalanceWarning\<close>: the warning \<^verbatim>\<open>processResults\<close> pushes when
    \<^verbatim>\<open>validatePowerBalance\<close> reports an error above 0.01;
  \<^item> \<open>validateResultsWarnings\<close>: the warnings of \<^verbatim>\<open>validateResults\<close>.
\<close>

record ('pa, 'tm) collaborators =
  jsonStringify ::
    "(ctype \<times> real \<times> string) list \<times> (string option \<times> string option \<times> real) list \<Rightarrow> nat list"
  checkBasicConnectivity :: "circuit \<Rightarrow> js_error + bool"
  analyzeNodes :: "circuit \<Rightarrow> nodeAnalysis"
  buildSystemMatrices :: "circuit \<Rightarrow> nodeAnalysis \<Rightarrow> analysis_method \<Rightarrow> string + matrices"
  solve :: "matrices \<Rightarrow> solution"
  calculatePowerAnalysis :: "(string \<times> componentValue) list \<Rightarrow> circuit \<Rightarrow> 'pa"
  calculateTotalMetrics ::
    "analysis_method \<Rightarrow> (string \<times> componentValue) list \<Rightarrow> 'pa \<Rightarrow> circuit \<Rightarrow> 'tm"
  powerBalanceWarning :: "'pa \<Rightarrow> string option"
  validateResultsWarnings :: "(string \<times> componentValue) list \<Rightarrow> circuit \<Rightarrow> string list"

subsection \<open>The structural fingerprint\<close>

text \<open>
  \<^verbatim>\<open>simpleHash\<close> (452-460): \<^verbatim>\<open>hash = ((hash << 5) - hash) + char; hash = hash & hash\<close> keeps
  a signed 32-bit integer, so the arithmetic is that of 32-bit words; the result is the
  signed value written in base 36.
\<close>

fun base36 :: "nat \<Rightarrow> string" where
  "base36 n =
     (let d = n mod 36;
          c = (if d < 10 then char_of (48 + d) else char_of (87 + d))
      in if n < 36 then [c] else base36 (n div 36) @ [c])"

declare base36.simps [simp del]

definition toString36 :: "int \<Rightarrow> string" where
  "toString36 i = (if i < 0 then ''-'' @ base36 (nat (- i)) else base36 (nat i))"

definition simpleHash :: "nat list \<Rightarrow> string" where
  "simpleHash str =
     toString36 (sint (foldl (\<lambda>hash char. (push_bit 5 hash - hash) + of_nat char)
                          (0 :: 32 word) str))"

text \<open>\<^verbatim>\<open>generateCircuitHash\<close> (432-447).\<close>

definition circuitData ::
  "circuit \<Rightarrow> (ctype \<times> real \<times> string) list \<times> (string option \<times> string option \<times> real) list" where
  "circuitData circ =
     (map (\<lambda>c. (comp_type c, value c, comp_id c)) (components circ),
      map (\<lambda>w. (startComponent w, endComponent w, resistance w)) (wires circ))"

definition generateCircuitHash :: "('pa, 'tm) collaborators \<Rightarrow> circuit \<Rightarrow> string" where
  "generateCircuitHash env circ = simpleHash (jsonStringify env (circuitData circ))"

subsection \<open>Applying a solution\<close>

text \<open>
  \<^verbatim>\<open>assignCurrentToComponent\<close> (322-342): the voltage and the power are computed first; if
  either computation throws, nothing has been written for this component.
  \<^verbatim>\<open>calculatePower\<close> throws when the voltage is not a number. Otherwise the entry of
  \<^verbatim>\<open>componentValues\<close> is stored and the three fields of the component found by \<^verbatim>\<open>find\<close>
  (the first one with that id) are overwritten.
\<close>

fun updateFirst :: "('a \<Rightarrow> bool) \<Rightarrow> ('a \<Rightarrow> 'a) \<Rightarrow> 'a list \<Rightarrow> 'a list" where
  "updateFirst P f [] = []"
| "updateFirst P f (x # xs) = (if P x then f x # xs else x # updateFirst P f xs)"

definition assignCurrentToComponent ::
  "string \<Rightarrow> real \<Rightarrow> circuit \<Rightarrow> ('pa, 'tm) analysisResult
     \<Rightarrow> js_error + (('pa, 'tm) analysisResult \<times> circuit)" where
  "assignCurrentToComponent cid i circ results =
     (case find (\<lambda>c. comp_id c = cid) (components circ) of
        None \<Rightarrow> Inr (results, circ)
      | Some c \<Rightarrow>
          (case calculateVoltage (Some c) (Some i) of
             Inl e \<Rightarrow> Inl e
           | Inr v \<Rightarrow>
               (case calculatePower (numberOf v) (Some i) (None :: component option) of
                  Inl e \<Rightarrow> Inl e
                | Inr p \<Rightarrow>
                    Inr (results\<lparr>componentValues :=
                           map_set cid
                             \<lparr>val_current = i, val_voltage = v, val_power = p,
                              val_resistance =
                                (if comp_type c = Resistor then Some (value c) else None)\<rparr>
                             (componentValues results)\<rparr>,
                         circ\<lparr>components :=
                           updateFirst (\<lambda>c. comp_id c = cid)
                             (\<lambda>c. c\<lparr>current := i, voltage := v, power := p\<rparr>)
                             (components circ)\<rparr>))))"

text \<open>
  \<^verbatim>\<open>solution.branchCurrents[index]\<close> (290): \<^verbatim>\<open>branchCurrents\<close> is the \<^verbatim>\<open>Map\<close> built by
  \<^verbatim>\<open>extractBranchCurrents\<close>. Bracket access reads a property of the object, not an entry
  of the map, and the object has no such property: the value is \<^verbatim>\<open>undefined\<close>.
\<close>

definition mapObjectProperty :: "(string \<times> real) list \<Rightarrow> nat \<Rightarrow> real option" where
  "mapObjectProperty m index = None"

text \<open>A string used as a condition is truthy when present and not empty.\<close>

definition truthyString :: "string option \<Rightarrow> bool" where
  "truthyString s = (case s of None \<Rightarrow> False | Some x \<Rightarrow> x \<noteq> [])"

text \<open>
  The \<^verbatim>\<open>forEach\<close> over the branches in \<^verbatim>\<open>processResults\<close> (289-301). When
  \<^verbatim>\<open>assignCurrentToComponent\<close> throws, the loop stops with the results and the circuit as
  they are at that moment.
\<close>

fun processBranches ::
  "(string \<times> real) list \<Rightarrow> (nat \<times> branch) list \<Rightarrow> ('pa, 'tm) analysisResult \<times> circuit
     \<Rightarrow> js_error option \<times> ('pa, 'tm) analysisResult \<times> circuit" where
  "processBranches bc [] st = (None, st)"
| "processBranches bc ((index, b) # rest) st =
     (let (results, circ) = st;
          i = or_zero (mapObjectProperty bc index);
          results = results\<lparr>branchCurrents := map_set (branch_id b) i (branchCurrents results)\<rparr>
      in case (if truthyString (componentId b)
               then assignCurrentToComponent (the (componentId b)) i circ results
               else Inr (results, circ)) of
           Inl e \<Rightarrow> (Some e, results, circ)
         | Inr (results, circ) \<Rightarrow>
             (let results =
                (if truthyString (wireId b)
                 then results\<lparr>currentFlow := map_set (the (wireId b)) i (currentFlow results)\<rparr>
                 else results)
              in processBranches bc rest (results, circ)))"

text \<open>
  \<^verbatim>\<open>processResults\<close> (258-317), in the order of the source: the fresh results object
  (261-278), the node voltages (281-285), the branch loop (288-302), the diagnostics
  (305-314). \<open>now\<close> is the clock reading of \<^verbatim>\<open>new Date()\<close>.
\<close>

definition initialResults :: "nat \<Rightarrow> analysis_method \<Rightarrow> nodeAnalysis \<Rightarrow> ('pa, 'tm) analysisResult" where
  "initialResults now m na =
     \<lparr>res_isValid = True, res_error = None, res_warnings = Some [], fromCache = None,
      res_method = Some m, timestamp = Some now, nodeVoltages = [], branchCurrents = [],
      componentValues = [], currentFlow = [],
      circuitType = Some (description (topology na)),
      powerAnalysis = None, totalMetrics = None\<rparr>"

definition storeNodeVoltages ::
  "solution \<Rightarrow> nodeAnalysis \<Rightarrow> ('pa, 'tm) analysisResult \<Rightarrow> ('pa, 'tm) analysisResult" where
  "storeNodeVoltages sol na results =
     (case sol_nodeVoltages sol of
        None \<Rightarrow> results
      | Some nv \<Rightarrow>
          results\<lparr>nodeVoltages :=
            foldl (\<lambda>acc (index, n). map_set (node_id n) (or_zero (js_index nv index)) acc)
              (nodeVoltages results) (enumerate 0 (na_nodes na))\<rparr>)"

definition storeBranchCurrents ::
  "solution \<Rightarrow> nodeAnalysis \<Rightarrow> ('pa, 'tm) analysisResult \<times> circuit
     \<Rightarrow> js_error option \<times> ('pa, 'tm) analysisResult \<times> circuit" where
  "storeBranchCurrents sol na st =
     (case sol_branchCurrents sol of
        None \<Rightarrow> (None, st)
      | Some bc \<Rightarrow> processBranches bc (enumerate 0 (na_branches na)) st)"

definition pushWarnings :: "string list \<Rightarrow> ('pa, 'tm) analysisResult \<Rightarrow> ('pa, 'tm) analysisResult" where
  "pushWarnings ws results =
     results\<lparr>res_warnings :=
       Some ((case res_warnings results of None \<Rightarrow> [] | Some old \<Rightarrow> old) @ ws)\<rparr>"

definition attachDiagnostics ::
  "('pa, 'tm) collaborators \<Rightarrow> analysis_method \<Rightarrow> ('pa, 'tm) analysisResult \<Rightarrow> circuit
     \<Rightarrow> ('pa, 'tm) analysisResult" where
  "attachDiagnostics env m results circ =
     (let pa = calculatePowerAnalysis env (componentValues results) circ;
          results = results\<lparr>powerAnalysis := Some pa\<rparr>;
          results = results\<lparr>totalMetrics :=
                      Some (calculateTotalMetrics env m (componentValues results) pa circ)\<rparr>
      in case powerBalanceWarning env pa of
           None \<Rightarrow> results
         | Some w \<Rightarrow> pushWarnings [w] results)"

definition processResults ::
  "('pa, 'tm) collaborators \<Rightarrow> nat \<Rightarrow> solution \<Rightarrow> circuit \<Rightarrow> nodeAnalysis \<Rightarrow> analysis_method
     \<Rightarrow> (js_error + ('pa, 'tm) analysisResult) \<times> circuit" where
  "processResults env now sol circ na m =
     (case storeBranchCurrents sol na (storeNodeVoltages sol na (initialResults now m na), circ) of
        (Some e, results, circ') \<Rightarrow> (Inl e, circ')
      | (None, results, circ') \<Rightarrow> (Inr (attachDiagnostics env m results circ'), circ'))"

subsection \<open>The analyzer and its cache\<close>

text \<open>
  The state of a \<^verbatim>\<open>CircuitAnalyzer\<close> that \<^verbatim>\<open>analyzeCircuit\<close> touches: the \<^verbatim>\<open>Map\<close> from
  fingerprints to results and the last fingerprint.
\<close>

record ('pa, 'tm) analyzer =
  analysisCache :: "(string \<times> ('pa, 'tm) analysisResult) list"
  lastCircuitHash :: "string option"

text \<open>The message of a thrown value.\<close>

fun errorMessage :: "js_error \<Rightarrow> string" where
  "errorMessage (TypeError m) = m"
| "errorMessage (Error m) = m"

text \<open>
  \<^verbatim>\<open>analyzeCircuit\<close> (25-90). The function answers with the result, the analyzer and the
  circuit as they are when it returns. An exception thrown anywhere inside is caught at
  the end and turned into an invalid result (82-89); \<^verbatim>\<open>debugMode\<close> is off, so no stack is
  attached.
\<close>

definition internalError :: "js_error \<Rightarrow> ('pa, 'tm) analysisResult" where
  "internalError e = invalidResult (Some (''Error interno del analizador: '' @ errorMessage e)) None"

definition analyzeCircuit ::
  "('pa, 'tm) collaborators \<Rightarrow> nat \<Rightarrow> ('pa, 'tm) analyzer \<Rightarrow> circuit
     \<Rightarrow> ('pa, 'tm) analysisResult \<times> ('pa, 'tm) analyzer \<times> circuit" where
  "analyzeCircuit env now az circ =
     (let circuitHash = generateCircuitHash env circ in
      case map_of (analysisCache az) circuitHash of
        Some cached \<Rightarrow> (cached\<lparr>fromCache := Some True\<rparr>, az, circ)
      | None \<Rightarrow>
          (case validateCircuit (checkBasicConnectivity env) circ of
             Inl e \<Rightarrow> (internalError e, az, circ)
           | Inr validation \<Rightarrow>
               if \<not> v_isValid validation
               then (invalidResult (Some (v_error validation)) (Some (v_warnings validation)),
                     az, circ)
               else
                 (let na = analyzeNodes env circ in
                  if \<not> na_isValid na then (invalidResult (na_error na) None, az, circ)
                  else
                    (let m = selectOptimalMethod na in
                     case buildSystemMatrices env circ na m of
                       Inl err \<Rightarrow> (invalidResult (Some err) None, az, circ)
                     | Inr mats \<Rightarrow>
                         (let sol = solve env mats in
                          if \<not> sol_isValid sol
                          then (invalidResult (sol_error sol) None, az, circ)
                          else
                            (case processResults env now sol circ na m of
                               (Inl e, circ') \<Rightarrow> (internalError e, az, circ')
                             | (Inr results, circ') \<Rightarrow>
                                 (let ws = validateResultsWarnings env (componentValues results) circ';
                                      results = (if ws \<noteq> [] then pushWarnings ws results
                                                 else results)
                                  in (results,
                                      az\<lparr>analysisCache :=
                                           map_set circuitHash results (analysisCache az),
                                         lastCircuitHash := Some circuitHash\<rparr>,
                                      circ'))))))))"

section \<open>Circuits that differ in electrical fields only\<close>

definition eraseElectrical :: "component \<Rightarrow> component" where
  "eraseElectrical c = c\<lparr>current := 0, voltage := Num 0, power := 0\<rparr>"

definition sameUpToElectrical :: "circuit \<Rightarrow> circuit \<Rightarrow> bool" where
  "sameUpToElectrical circ circ' \<longleftrightarrow>
     wires circ' = wires circ
     \<and> map eraseElectrical (components circ') = map eraseElectrical (components circ)"

text \<open>
  The stored voltage of a capacitor is numeric when \<^verbatim>\<open>capacitor.voltage || 0\<close> is a number:
  the field holds a number or a falsy value. Components of any other type qualify.
\<close>

definition storedVoltageNumeric :: "component \<Rightarrow> bool" where
  "storedVoltageNumeric c \<longleftrightarrow>
     (comp_type c = Capacitor \<longrightarrow> numberOf (js_or (voltage c) (Num 0)) \<noteq> None)"

section \<open>An example circuit\<close>

text \<open>
  A 12 V source and one resistor in a loop, with the answers of the collaborators for
  it. The serializer stands in for \<^verbatim>\<open>JSON.stringify\<close>; the proofs use nothing of it.
\<close>

definition mkComponent :: "string \<Rightarrow> ctype \<Rightarrow> real \<Rightarrow> component" where
  "mkComponent cid t v =
     \<lparr>comp_id = cid, comp_type = t, value = v, label = cid, voltage = Num 0, current = 0,
      power = 0, temperature = None, tempCoefficient = None, isVariable = False,
      tapPosition = None, forwardVoltage = None, forwardResistance = None,
      reverseResistance = None, saturationCurrent = None, internalResistance = None\<rparr>"

definition mkWire :: "string \<Rightarrow> string \<Rightarrow> string \<Rightarrow> wire" where
  "mkWire wid a b =
     \<lparr>wire_id = wid, startComponent = Some a, endComponent = Some b, resistance = 0,
      wire_current = 0, wire_voltage = 0, wire_power = 0\<rparr>"

definition loopCircuit :: "real \<Rightarrow> circuit" where
  "loopCircuit r =
     \<lparr>components = [mkComponent ''V1'' Voltage 12, mkComponent ''R1'' Resistor r],
      wires = [mkWire ''w1'' ''V1'' ''R1'', mkWire ''w2'' ''R1'' ''V1'']\<rparr>"

definition mkComponentBranch :: "string \<Rightarrow> ctype \<Rightarrow> string \<Rightarrow> string \<Rightarrow> string \<Rightarrow> branch" where
  "mkComponentBranch bid t cid n1 n2 =
     \<lparr>branch_id = bid, branch_type = t, componentId = Some cid, wireId = None,
      branch_component = None, startNodeId = n1, endNodeId = n2,
      impedance = \<lparr>real_part = 0, imaginary = 0\<rparr>\<rparr>"

definition loopAnalysis :: nodeAnalysis where
  "loopAnalysis =
     \<lparr>na_isValid = True, na_error = None,
      na_nodes = [\<lparr>node_id = ''enode_0'', isGround = False\<rparr>,
                  \<lparr>node_id = ''enode_1'', isGround = True\<rparr>],
      na_branches = [mkComponentBranch ''branch_0'' Voltage ''V1'' ''enode_0'' ''enode_1'',
                     mkComponentBranch ''branch_1'' Resistor ''R1'' ''enode_0'' ''enode_1''],
      topology = \<lparr>isSeriesCircuit = True, isParallelCircuit = False, isLadderCircuit = False,
                  description = ''serie'', topology_meshes = []\<rparr>,
      nodeCount = 2, branchCount = 2, voltageSourceCount = 1, currentSourceCount = 0\<rparr>"

definition loopCollaborators :: "(unit, unit) collaborators" where
  "loopCollaborators =
     \<lparr>jsonStringify = (\<lambda>d. concat (map (\<lambda>(t, v, cid). map of_char cid) (fst d))),
      checkBasicConnectivity = (\<lambda>circ. Inr True),
      analyzeNodes = (\<lambda>circ. loopAnalysis),
      buildSystemMatrices =
        (\<lambda>circ na m. Inr ((emptyMatrices m)\<lparr>systemMatrix := Some [[1000]],
                                              rightHandSide := Some [12]\<rparr>)),
      solve = (\<lambda>mats. \<lparr>sol_isValid = True, sol_error = None,
                        sol_nodeVoltages = Some [0, 0],
                        sol_branchCurrents = Some [(''branch_0'', 0.012), (''branch_1'', 0.012)]\<rparr>),
      calculatePowerAnalysis = (\<lambda>vals circ. ()),
      calculateTotalMetrics = (\<lambda>m vals pa circ. ()),
      powerBalanceWarning = (\<lambda>pa. None),
      validateResultsWarnings = (\<lambda>vals circ. [])\<rparr>"

definition emptyAnalyzer :: "('pa, 'tm) analyzer" where
  "emptyAnalyzer = \<lparr>analysisCache = [], lastCircuitHash = None\<rparr>"





section \<open>Conditioning of the system matrix\<close>

text \<open>
  \<^verbatim>\<open>CircuitMatrixBuilder\<close> works with the tolerance \<open>1e-12\<close>. The matrix is square (the
  builders create it so), and \<^verbatim>\<open>matrix[i][j]\<close> is read inside its bounds.
\<close>

definition builderTolerance :: real where
  "builderTolerance = 1 / 10 ^ 12"

text \<open>\<^verbatim>\<open>approximateDeterminant\<close> (518-528): the product of the diagonal.\<close>

definition approximateDeterminant :: "real list list \<Rightarrow> real" where
  "approximateDeterminant M = foldl (\<lambda>product i. product * M ! i ! i) 1 [0..<length M]"

text \<open>\<^verbatim>\<open>CircuitMatrixBuilder.calculateDeterminant\<close> (500-513): closed forms up to 3 by 3.\<close>

definition calculateDeterminant_builder :: "real list list \<Rightarrow> real" where
  "calculateDeterminant_builder M =
     (let n = length M in
      if n = 1 then M ! 0 ! 0
      else if n = 2 then M ! 0 ! 0 * M ! 1 ! 1 - M ! 0 ! 1 * M ! 1 ! 0
      else if n = 3 then
        M ! 0 ! 0 * (M ! 1 ! 1 * M ! 2 ! 2 - M ! 1 ! 2 * M ! 2 ! 1)
        - M ! 0 ! 1 * (M ! 1 ! 0 * M ! 2 ! 2 - M ! 1 ! 2 * M ! 2 ! 0)
        + M ! 0 ! 2 * (M ! 1 ! 0 * M ! 2 ! 1 - M ! 1 ! 1 * M ! 2 ! 0)
      else approximateDeterminant M)"

text \<open>\<^verbatim>\<open>estimateRank\<close> (533-546), \<^verbatim>\<open>checkDiagonalDominance\<close> (551-566), \<^verbatim>\<open>checkSymmetry\<close> (571-583).\<close>

definition estimateRank :: "real list list \<Rightarrow> nat" where
  "estimateRank M =
     length (filter (\<lambda>row. foldl (\<lambda>sum val. sum + \<bar>val\<bar>) 0 row > builderTolerance) M)"

definition checkDiagonalDominance :: "real list list \<Rightarrow> bool" where
  "checkDiagonalDominance M =
     list_all (\<lambda>i. \<not> (\<bar>M ! i ! i\<bar>
                       < foldl (\<lambda>sum (j, val). if i \<noteq> j then sum + \<bar>val\<bar> else sum) 0
                           (enumerate 0 (M ! i))))
       [0..<length M]"

definition checkSymmetry :: "real list list \<Rightarrow> bool" where
  "checkSymmetry M =
     list_all (\<lambda>i. list_all (\<lambda>j. \<not> (\<bar>M ! i ! j - M ! j ! i\<bar> > builderTolerance))
                      [0..<length M])
       [0..<length M]"

text \<open>
  \<^verbatim>\<open>extractSubmatrix\<close> (718-722) and \<^verbatim>\<open>CircuitMatrixBuilder.isPositiveDefinite\<close> (740-760),
  here \<open>isPositiveDefiniteMatrix\<close>: positive diagonal and positive leading minors.
\<close>

definition extractSubmatrix :: "real list list \<Rightarrow> nat list \<Rightarrow> nat list \<Rightarrow> real list list" where
  "extractSubmatrix M rowIndices colIndices = map (\<lambda>i. map (\<lambda>j. M ! i ! j) colIndices) rowIndices"

definition isPositiveDefiniteMatrix :: "real list list \<Rightarrow> bool" where
  "isPositiveDefiniteMatrix M =
     (list_all (\<lambda>i. \<not> (M ! i ! i \<le> 0)) [0..<length M]
      \<and> list_all (\<lambda>k. \<not> (calculateDeterminant_builder (extractSubmatrix M [0..<k] [0..<k]) \<le> 0))
           [1..<Suc (length M)])"

text \<open>
  \<^verbatim>\<open>checkMatrixConditioning\<close> (464-495). The object it stores has the properties
  \<^verbatim>\<open>determinant\<close>, \<^verbatim>\<open>rank\<close>, \<^verbatim>\<open>isDiagonallyDominant\<close>, \<^verbatim>\<open>isSymmetric\<close> and
  \<^verbatim>\<open>conditionNumber\<close> (always \<^verbatim>\<open>null\<close>, not modelled), then possibly \<^verbatim>\<open>isSingular\<close> and
  \<^verbatim>\<open>warning\<close>; the second warning overwrites the first. No property
  \<^verbatim>\<open>isPositiveDefinite\<close> is ever assigned. Messages are written without accents.
\<close>

definition checkMatrixConditioning :: "matrices \<Rightarrow> matrices" where
  "checkMatrixConditioning mats =
     (case systemMatrix mats of
        None \<Rightarrow> mats
      | Some M \<Rightarrow>
          (let c = \<lparr>determinant = Some (calculateDeterminant_builder M),
                    rank = Some (estimateRank M),
                    isDiagonallyDominant = Some (checkDiagonalDominance M),
                    isSymmetric = Some (checkSymmetry M),
                    isPositiveDefinite = None, isSingular = None, warning = None\<rparr>;
               c = (if \<bar>calculateDeterminant_builder M\<bar> < builderTolerance
                    then c\<lparr>isSingular := Some True,
                           warning := Some ''Matriz singular o cerca de singular''\<rparr>
                    else c);
               c = (if \<not> checkDiagonalDominance M
                    then c\<lparr>warning := Some (''Matriz no es diagonalmente dominante - ''
                                           @ ''posible inestabilidad numerica'')\<rparr>
                    else c)
           in mats\<lparr>conditioning := Some c\<rparr>))"

section \<open>Choice of the solving algorithm\<close>

text \<open>
  The tags \<^verbatim>\<open>EquationSolver.selectSolverMethod\<close> returns
  (\<^verbatim>\<open>utils/equation_solver.js\<close>, 130-164). \<open>tol\<close> is the solver's \<^verbatim>\<open>tolerance\<close> (default
  \<open>1e-10\<close>, configurable). A property used as a condition is truthy when it is present and
  \<^verbatim>\<open>true\<close> (a flag) or not empty (a string); \<^verbatim>\<open>Math.abs(undefined) > tol\<close> is false.
  Reading \<^verbatim>\<open>systemMatrix.length\<close> of a missing matrix throws.
\<close>

datatype solver_method =
    DirectElimination | LuDecomposition | Cholesky | IterativeJacobi | IterativeGaussSeidel
  | Cramer | SeriesSimple | ParallelSimple

definition truthyFlag :: "bool option \<Rightarrow> bool" where
  "truthyFlag b = (b = Some True)"

definition selectSolverMethod :: "real \<Rightarrow> matrices \<Rightarrow> js_error + solver_method" where
  "selectSolverMethod tol mats =
     (case systemMatrix mats of
        None \<Rightarrow> Inl (TypeError ''Cannot read properties of undefined'')
      | Some M \<Rightarrow>
          Inr (let n = length M in
               if analysisMethod mats = Series then SeriesSimple
               else if analysisMethod mats = Parallel then ParallelSimple
               else if n \<le> 3
                       \<and> (case conditioning mats of
                            None \<Rightarrow> False
                          | Some c \<Rightarrow> (case determinant c of
                                         None \<Rightarrow> False | Some d \<Rightarrow> \<bar>d\<bar> > tol))
                 then Cramer
               else if (case conditioning mats of
                          None \<Rightarrow> False
                        | Some c \<Rightarrow> truthyFlag (isSymmetric c) \<and> truthyFlag (isPositiveDefinite c))
                 then Cholesky
               else if (case conditioning mats of
                          None \<Rightarrow> True
                        | Some c \<Rightarrow> \<not> truthyString (warning c))
                 then (if n \<le> 10 then DirectElimination else LuDecomposition)
               else if (case conditioning mats of
                          None \<Rightarrow> False | Some c \<Rightarrow> truthyFlag (isDiagonallyDominant c))
                 then IterativeGaussSeidel
               else DirectElimination))"

definition scaledIdentity :: "nat \<Rightarrow> real \<Rightarrow> real list list" where
  "scaledIdentity n a = map (\<lambda>i. map (\<lambda>j. if i = j then a else 0) [0..<n]) [0..<n]"

definition builtSystem :: "analysis_method \<Rightarrow> real list list \<Rightarrow> real list \<Rightarrow> matrices" where
  "builtSystem m M b =
     checkMatrixConditioning ((emptyMatrices m)\<lparr>systemMatrix := Some M, rightHandSide := Some b\<rparr>)"

section \<open>Double-precision numbers\<close>

text \<open>
  The numbers of the equation solver are IEEE 754 double-precision values: whether a
  pivot test fires depends on how the operations round. A finite value \<open>Finite s m e\<close> is
  \<open>m * 2 ^ e\<close>, negative when \<open>s\<close> holds, with \<open>0 \<le> m < 2 ^ 53\<close> and \<open>- 1074 \<le> e \<le> 971\<close>;
  the representation is unique: \<open>2 ^ 52 \<le> m\<close> unless \<open>e = - 1074\<close> (the subnormal values),
  and zero is \<open>Finite s 0 0\<close>, which keeps its sign.
  \<^item> \<open>bitLength m\<close>: the number of binary digits of \<open>m\<close>;
  \<^item> \<open>roundHalfEven m k\<close>: \<open>m / 2 ^ k\<close> rounded to the nearest integer, ties to even;
  \<^item> \<open>pack s m e\<close>: the double nearest to \<open>m * 2 ^ e\<close> (ties to even), an infinity when the
    rounded value is out of range;
  \<^item> \<open>dadd\<close>, \<open>dsub\<close>, \<open>dmul\<close>, \<open>ddiv\<close>: the operators \<^verbatim>\<open>+\<close>, \<^verbatim>\<open>-\<close>, \<^verbatim>\<open>*\<close>, \<^verbatim>\<open>/\<close>, each the exact
    result rounded once; the quotient is taken with 129 extra binary digits, the last
    of them set when the division leaves a remainder;
  \<^item> \<open>dless\<close>, \<open>dgreater\<close>: the comparisons \<^verbatim>\<open><\<close> and \<^verbatim>\<open>>\<close>, false when an operand is \<^verbatim>\<open>NaN\<close>;
  \<^item> \<open>dabs\<close>: \<^verbatim>\<open>Math.abs\<close>; \<open>fromInt\<close>: an integer literal; \<open>valueOf\<close>: the real number a
    finite double stands for.
\<close>

datatype double = Finite bool int int | Infinity bool | NaN

function bitLength :: "int \<Rightarrow> int" where
  "bitLength m = (if m \<le> 0 then 0 else 1 + bitLength (m div 2))"
  by pat_completeness auto
termination
  by (relation "measure nat") auto

declare bitLength.simps [simp del]

definition roundHalfEven :: "int \<Rightarrow> nat \<Rightarrow> int" where
  "roundHalfEven m k =
     (let q = m div 2 ^ k; r = m mod 2 ^ k; half = 2 ^ k div 2
      in if k = 0 then m else if r > half \<or> (r = half \<and> odd q) then q + 1 else q)"

definition pack :: "bool \<Rightarrow> int \<Rightarrow> int \<Rightarrow> double" where
  "pack s m e =
     (if m = 0 then Finite s 0 0
      else
        (let e' = max (e + bitLength m - 53) (- 1074);
             m' = (if e \<le> e' then roundHalfEven m (nat (e' - e)) else m * 2 ^ nat (e - e'));
             e'' = (if m' = 2 ^ 53 then e' + 1 else e');
             m'' = (if m' = 2 ^ 53 then 2 ^ 52 else m')
         in if m'' = 0 then Finite s 0 0
            else if e'' > 971 then Infinity s
            else Finite s m'' e''))"

definition fromInt :: "int \<Rightarrow> double" where
  "fromInt z = pack (z < 0) \<bar>z\<bar> 0"

definition dzero :: double where
  "dzero = Finite False 0 0"

definition signedAt :: "bool \<Rightarrow> int \<Rightarrow> int \<Rightarrow> int \<Rightarrow> int" where
  "signedAt s m e e0 = (if s then - 1 else 1) * m * 2 ^ nat (e - e0)"

definition dneg :: "double \<Rightarrow> double" where
  "dneg x = (case x of Finite s m e \<Rightarrow> Finite (\<not> s) m e | Infinity s \<Rightarrow> Infinity (\<not> s)
             | NaN \<Rightarrow> NaN)"

definition dabs :: "double \<Rightarrow> double" where
  "dabs x = (case x of Finite s m e \<Rightarrow> Finite False m e | Infinity s \<Rightarrow> Infinity False
             | NaN \<Rightarrow> NaN)"

definition dless :: "double \<Rightarrow> double \<Rightarrow> bool" where
  "dless x y =
     (case (x, y) of
        (Finite s1 m1 e1, Finite s2 m2 e2) \<Rightarrow>
          signedAt s1 m1 e1 (min e1 e2) < signedAt s2 m2 e2 (min e1 e2)
      | (Finite s1 m1 e1, Infinity s2) \<Rightarrow> \<not> s2
      | (Infinity s1, Finite s2 m2 e2) \<Rightarrow> s1
      | (Infinity s1, Infinity s2) \<Rightarrow> s1 \<and> \<not> s2
      | _ \<Rightarrow> False)"

definition dgreater :: "double \<Rightarrow> double \<Rightarrow> bool" where
  "dgreater x y = dless y x"

definition dadd :: "double \<Rightarrow> double \<Rightarrow> double" where
  "dadd x y =
     (case (x, y) of
        (Finite s1 m1 e1, Finite s2 m2 e2) \<Rightarrow>
          (let e0 = min e1 e2; t = signedAt s1 m1 e1 e0 + signedAt s2 m2 e2 e0
           in if t = 0 then Finite (s1 \<and> s2) 0 0 else pack (t < 0) \<bar>t\<bar> e0)
      | (Finite s1 m1 e1, Infinity s2) \<Rightarrow> Infinity s2
      | (Infinity s1, Finite s2 m2 e2) \<Rightarrow> Infinity s1
      | (Infinity s1, Infinity s2) \<Rightarrow> (if s1 = s2 then Infinity s1 else NaN)
      | _ \<Rightarrow> NaN)"

definition dsub :: "double \<Rightarrow> double \<Rightarrow> double" where
  "dsub x y = dadd x (dneg y)"

definition dmul :: "double \<Rightarrow> double \<Rightarrow> double" where
  "dmul x y =
     (case (x, y) of
        (Finite s1 m1 e1, Finite s2 m2 e2) \<Rightarrow> pack (s1 \<noteq> s2) (m1 * m2) (e1 + e2)
      | (Finite s1 m1 e1, Infinity s2) \<Rightarrow> (if m1 = 0 then NaN else Infinity (s1 \<noteq> s2))
      | (Infinity s1, Finite s2 m2 e2) \<Rightarrow> (if m2 = 0 then NaN else Infinity (s1 \<noteq> s2))
      | (Infinity s1, Infinity s2) \<Rightarrow> Infinity (s1 \<noteq> s2)
      | _ \<Rightarrow> NaN)"

definition ddiv :: "double \<Rightarrow> double \<Rightarrow> double" where
  "ddiv x y =
     (case (x, y) of
        (Finite s1 m1 e1, Finite s2 m2 e2) \<Rightarrow>
          (if m2 = 0 then (if m1 = 0 then NaN else Infinity (s1 \<noteq> s2))
           else pack (s1 \<noteq> s2)
                  (2 * (m1 * 2 ^ 128 div m2) + (if m1 * 2 ^ 128 mod m2 = 0 then 0 else 1))
                  (e1 - e2 - 129))
      | (Finite s1 m1 e1, Infinity s2) \<Rightarrow> Finite (s1 \<noteq> s2) 0 0
      | (Infinity s1, Finite s2 m2 e2) \<Rightarrow> Infinity (s1 \<noteq> s2)
      | _ \<Rightarrow> NaN)"

definition isFiniteNumber :: "double \<Rightarrow> bool" where
  "isFiniteNumber x = (case x of Finite s m e \<Rightarrow> True | _ \<Rightarrow> False)"

definition valueOf :: "double \<Rightarrow> real option" where
  "valueOf x =
     (case x of
        Finite s m e \<Rightarrow>
          Some ((if s then - 1 else 1) * of_int m
                * (if 0 \<le> e then 2 ^ nat e else 1 / 2 ^ nat (- e)))
      | _ \<Rightarrow> None)"

text \<open>The literal \<^verbatim>\<open>1e-10\<close>, the \<^verbatim>\<open>tolerance\<close> of \<^verbatim>\<open>EquationSolver\<close>: the double nearest to it.\<close>

definition solverTolerance :: double where
  "solverTolerance = ddiv (fromInt 1) (fromInt (10 ^ 10))"

section \<open>The direct solving methods\<close>

text \<open>
  What a solving method of \<^verbatim>\<open>EquationSolver\<close> returns (prefix \<open>sr_\<close>). \<open>tol\<close> is the
  solver's \<^verbatim>\<open>tolerance\<close>. The system is \<open>n \<times> n\<close> with a right-hand side of length \<open>n\<close>
  (\<^verbatim>\<open>validateInput\<close> checks it), so every index below is in range. Messages are written
  without accents.
\<close>

record solverResult =
  sr_isValid :: bool
  sr_error :: "string option"
  sr_values :: "double list option"
  sr_method :: "string option"

definition failedResult :: "string \<Rightarrow> js_error \<Rightarrow> nat \<Rightarrow> solverResult" where
  "failedResult prefix e n =
     \<lparr>sr_isValid = False, sr_error = Some (prefix @ errorMessage e),
      sr_values = Some (replicate n dzero), sr_method = None\<rparr>"

definition squareSystem :: "'a list list \<Rightarrow> 'a list \<Rightarrow> bool" where
  "squareSystem A b \<longleftrightarrow> list_all (\<lambda>row. length row = length A) A \<and> length b = length A"

subsection \<open>Row operations shared by the two eliminations\<close>

text \<open>
  The partial-pivoting search (177-182, 242-247), the row exchange (185-187, 249-250)
  and the update of row \<open>k\<close> by the pivot row \<open>i\<close> over the columns \<open>lo..<hi\<close> (195-200,
  263-268). In the LU code the factor is stored in \<^verbatim>\<open>L[k][i]\<close> before it is used.
  \<open>pivoted M i n\<close> is the working matrix of step \<open>i\<close> after its row exchange; its entry
  \<open>(i, i)\<close> is the pivot that the step tests.
\<close>

definition findPivotRow :: "double list list \<Rightarrow> nat \<Rightarrow> nat \<Rightarrow> nat" where
  "findPivotRow M i n =
     foldl (\<lambda>maxRow k. if dgreater (dabs (M ! k ! i)) (dabs (M ! maxRow ! i)) then k else maxRow)
       i [Suc i..<n]"

definition swapRows :: "'a list list \<Rightarrow> nat \<Rightarrow> nat \<Rightarrow> 'a list list" where
  "swapRows M i maxRow = (if maxRow \<noteq> i then M[i := M ! maxRow, maxRow := M ! i] else M)"

definition pivoted :: "double list list \<Rightarrow> nat \<Rightarrow> nat \<Rightarrow> double list list" where
  "pivoted M i n = swapRows M i (findPivotRow M i n)"

definition eliminateRow ::
  "double list list \<Rightarrow> nat \<Rightarrow> nat \<Rightarrow> nat \<Rightarrow> nat \<Rightarrow> double list list" where
  "eliminateRow M i k lo hi =
     (let factor = ddiv (M ! k ! i) (M ! i ! i)
      in foldl (\<lambda>M j. M[k := (M ! k)[j := dsub (M ! k ! j) (dmul factor (M ! i ! j))]])
           M [lo..<hi])"

definition eliminateBelow :: "double list list \<Rightarrow> nat \<Rightarrow> nat \<Rightarrow> nat \<Rightarrow> double list list" where
  "eliminateBelow M i n hi = foldl (\<lambda>M k. eliminateRow M i k i hi) M [Suc i..<n]"

definition position :: "nat \<Rightarrow> string" where
  "position i = ''('' @ digits i @ '', '' @ digits i @ '')''"

subsection \<open>Gaussian elimination with partial pivoting\<close>

text \<open>\<^verbatim>\<open>gaussianElimination\<close> (169-226).\<close>

definition augmentSystem :: "'a list list \<Rightarrow> 'a list \<Rightarrow> 'a list list" where
  "augmentSystem A b = map (\<lambda>i. A ! i @ [b ! i]) [0..<length A]"

definition gaussStep ::
  "double \<Rightarrow> nat \<Rightarrow> double list list \<Rightarrow> nat \<Rightarrow> js_error + double list list" where
  "gaussStep tol n augmented i =
     (let augmented = pivoted augmented i n
      in if dless (dabs (augmented ! i ! i)) tol
         then Inl (Error (''Elemento pivote muy pequeno en posicion '' @ position i))
         else Inr (eliminateBelow augmented i n (n + 1)))"

definition forwardElimination ::
  "double \<Rightarrow> nat \<Rightarrow> double list list \<Rightarrow> js_error + double list list" where
  "forwardElimination tol n augmented = foldl_err (gaussStep tol n) augmented [0..<n]"

definition backSubstitution :: "nat \<Rightarrow> double list list \<Rightarrow> double list" where
  "backSubstitution n augmented =
     foldl (\<lambda>x i. x[i := ddiv (foldl (\<lambda>xi j. dsub xi (dmul (augmented ! i ! j) (x ! j)))
                                   (augmented ! i ! n) [Suc i..<n])
                              (augmented ! i ! i)])
       (replicate n dzero) (rev [0..<n])"

definition gaussianElimination :: "double \<Rightarrow> double list list \<Rightarrow> double list \<Rightarrow> solverResult" where
  "gaussianElimination tol A b =
     (let n = length A in
      case forwardElimination tol n (augmentSystem A b) of
        Inl e \<Rightarrow> failedResult ''Error en eliminacion gaussiana: '' e n
      | Inr augmented \<Rightarrow>
          \<lparr>sr_isValid = True, sr_error = None,
           sr_values = Some (backSubstitution n augmented),
           sr_method = Some ''gaussian_elimination''\<rparr>)"

subsection \<open>LU decomposition\<close>

text \<open>
  \<^verbatim>\<open>luDecomposition\<close> as the class defines it (231-305): the factorization with partial
  pivoting, then the two triangular solves with \<^verbatim>\<open>L\<close> and its transpose, and the method
  name and error prefix that the function carries there.
\<close>

definition createIdentityMatrix :: "nat \<Rightarrow> double list list" where
  "createIdentityMatrix n = map (\<lambda>i. (replicate n dzero)[i := fromInt 1]) [0..<n]"

definition swapLowerEntries :: "'a list list \<Rightarrow> nat \<Rightarrow> nat \<Rightarrow> 'a list list" where
  "swapLowerEntries L i maxRow =
     foldl (\<lambda>L j. L[i := (L ! i)[j := L ! maxRow ! j], maxRow := (L ! maxRow)[j := L ! i ! j]])
       L [0..<i]"

definition luStep ::
  "double \<Rightarrow> nat \<Rightarrow> double list list \<times> double list list \<Rightarrow> nat
     \<Rightarrow> js_error + (double list list \<times> double list list)" where
  "luStep tol n LU i =
     (let (L, U) = LU;
          maxRow = findPivotRow U i n;
          L = (if maxRow \<noteq> i then swapLowerEntries L i maxRow else L);
          U = pivoted U i n
      in if dless (dabs (U ! i ! i)) tol
         then Inl (Error (''Pivote muy pequeno en descomposicion LU: posicion '' @ position i))
         else Inr (foldl (\<lambda>L k. L[k := (L ! k)[i := ddiv (U ! k ! i) (U ! i ! i)]]) L [Suc i..<n],
                   eliminateBelow U i n n))"

definition luFactorize ::
  "double \<Rightarrow> double list list \<Rightarrow> js_error + (double list list \<times> double list list)" where
  "luFactorize tol A =
     foldl_err (luStep tol (length A)) (createIdentityMatrix (length A), A) [0..<length A]"

definition solveLower :: "nat \<Rightarrow> double list list \<Rightarrow> double list \<Rightarrow> double list" where
  "solveLower n L b =
     foldl (\<lambda>y i. y[i := ddiv (foldl (\<lambda>yi j. dsub yi (dmul (L ! i ! j) (y ! j))) (b ! i) [0..<i])
                              (L ! i ! i)])
       (replicate n dzero) [0..<n]"

definition solveLowerTransposed :: "nat \<Rightarrow> double list list \<Rightarrow> double list \<Rightarrow> double list" where
  "solveLowerTransposed n L y =
     foldl (\<lambda>x i. x[i := ddiv (foldl (\<lambda>xi j. dsub xi (dmul (L ! j ! i) (x ! j))) (y ! i)
                                   [Suc i..<n])
                              (L ! i ! i)])
       (replicate n dzero) (rev [0..<n])"

definition luDecomposition :: "double \<Rightarrow> double list list \<Rightarrow> double list \<Rightarrow> solverResult" where
  "luDecomposition tol A b =
     (let n = length A in
      case luFactorize tol A of
        Inl e \<Rightarrow> failedResult ''Error en descomposicion Cholesky: '' e n
      | Inr (L, U) \<Rightarrow>
          \<lparr>sr_isValid = True, sr_error = None,
           sr_values = Some (solveLowerTransposed n L (solveLower n L b)),
           sr_method = Some ''cholesky_decomposition''\<rparr>)"

subsection \<open>Cramer's rule\<close>

text \<open>
  \<^verbatim>\<open>getMinor\<close> (677-692), \<^verbatim>\<open>approximateDeterminant\<close> (696-706) and
  \<^verbatim>\<open>EquationSolver.calculateDeterminant\<close> (642-672), here \<open>calculateDeterminant_solver\<close>:
  closed forms up to 3 by 3, cofactor expansion along the first row for 4 by 4, the
  product of the diagonal above.
\<close>

definition dropIndex :: "nat \<Rightarrow> 'a list \<Rightarrow> 'a list" where
  "dropIndex i xs = take i xs @ drop (Suc i) xs"

definition getMinor :: "'a list list \<Rightarrow> nat \<Rightarrow> nat \<Rightarrow> 'a list list" where
  "getMinor M r c = map (\<lambda>i. dropIndex c (take (length M) (M ! i))) (dropIndex r [0..<length M])"

definition approximateDeterminant_solver :: "double list list \<Rightarrow> double" where
  "approximateDeterminant_solver M =
     foldl (\<lambda>product i. dmul product (M ! i ! i)) (fromInt 1) [0..<length M]"

function calculateDeterminant_solver :: "double list list \<Rightarrow> double" where
  "calculateDeterminant_solver M =
     (let n = length M in
      if n = 1 then M ! 0 ! 0
      else if n = 2 then dsub (dmul (M ! 0 ! 0) (M ! 1 ! 1)) (dmul (M ! 0 ! 1) (M ! 1 ! 0))
      else if n = 3 then
        dadd
          (dsub
             (dmul (M ! 0 ! 0)
                (dsub (dmul (M ! 1 ! 1) (M ! 2 ! 2)) (dmul (M ! 1 ! 2) (M ! 2 ! 1))))
             (dmul (M ! 0 ! 1)
                (dsub (dmul (M ! 1 ! 0) (M ! 2 ! 2)) (dmul (M ! 1 ! 2) (M ! 2 ! 0)))))
          (dmul (M ! 0 ! 2)
             (dsub (dmul (M ! 1 ! 0) (M ! 2 ! 1)) (dmul (M ! 1 ! 1) (M ! 2 ! 0))))
      else if n = 4 then
        foldl (\<lambda>det i.
                 dadd det
                   (dmul (M ! 0 ! i)
                      (dmul (fromInt ((- 1) ^ i))
                         (calculateDeterminant_solver (getMinor M 0 i)))))
          dzero [0..<4]
      else approximateDeterminant_solver M)"
  by pat_completeness auto
termination
  by (relation "measure length") (simp_all add: getMinor_def dropIndex_def)

declare calculateDeterminant_solver.simps [simp del]

text \<open>\<^verbatim>\<open>cramerRule\<close> (426-465).\<close>

definition replaceColumn :: "'a list list \<Rightarrow> nat \<Rightarrow> 'a list \<Rightarrow> 'a list list" where
  "replaceColumn A i b = map (\<lambda>j. (A ! j)[i := b ! j]) [0..<length A]"

definition cramerRule :: "double \<Rightarrow> double list list \<Rightarrow> double list \<Rightarrow> solverResult" where
  "cramerRule tol A b =
     (let n = length A; detA = calculateDeterminant_solver A in
      if dless (dabs detA) tol
      then failedResult ''Error en regla de Cramer: ''
             (Error ''Determinante muy pequeno para regla de Cramer'') n
      else \<lparr>sr_isValid = True, sr_error = None,
            sr_values =
              Some (map (\<lambda>i. ddiv (calculateDeterminant_solver (replaceColumn A i b)) detA)
                      [0..<n]),
            sr_method = Some ''cramer_rule''\<rparr>)"

subsection \<open>Singular systems\<close>

text \<open>
  A row applied to a vector is the sum of the products of their entries, and a real
  matrix is singular when some non-zero vector is sent to zero by every row. The two
  matrices of integers used below: one whose second column is the first times \<open>10 ^ 6\<close>,
  and the 5 by 5 matrix of ones.
\<close>

definition rowForm :: "real list \<Rightarrow> real list \<Rightarrow> real" where
  "rowForm row x = (\<Sum>j < length x. row ! j * x ! j)"

definition singularSystem :: "real list list \<Rightarrow> bool" where
  "singularSystem A \<longleftrightarrow>
     (\<exists>x. length x = length A \<and> (\<exists>j < length A. x ! j \<noteq> 0)
          \<and> (\<forall>r < length A. rowForm (A ! r) x = 0))"

definition scaledColumns :: "int list list" where
  "scaledColumns = [[22, 22000000], [15, 15000000]]"

definition onesSystem :: "int list list" where
  "onesSystem = replicate 5 (replicate 5 1)"

section \<open>Method selection of the coordinator\<close>

text \<open>
  C8. For a circuit whose topology is not classified series, parallel or ladder, the
  coordinator compares \<open>(nodeCount - 1) + 2 * voltageSourceCount\<close> with
  \<open>(branchCount - nodeCount + 1) + 2 * currentSourceCount\<close>. When the first is less than
  or equal to the second (ties included) a nodal method is chosen, and it is
  \<open>nodal_modified\<close> exactly when voltage sources are present; otherwise a mesh method is
  chosen, and it is \<open>mesh_modified\<close> exactly when current sources are present.
\<close>

theorem selectOptimalMethod_general:
  assumes "\<not> isSeriesCircuit (topology na)"
      and "\<not> isParallelCircuit (topology na)"
      and "\<not> isLadderCircuit (topology na)"
  shows "(int (nodeCount na) - 1 + 2 * int (voltageSourceCount na)
            \<le> int (branchCount na) - int (nodeCount na) + 1 + 2 * int (currentSourceCount na)
          \<longrightarrow> selectOptimalMethod na \<in> {Nodal, NodalModified}
              \<and> (selectOptimalMethod na = NodalModified \<longleftrightarrow> voltageSourceCount na > 0))
       \<and> (\<not> (int (nodeCount na) - 1 + 2 * int (voltageSourceCount na)
            \<le> int (branchCount na) - int (nodeCount na) + 1 + 2 * int (currentSourceCount na))
          \<longrightarrow> selectOptimalMethod na \<in> {Mesh, MeshModified}
              \<and> (selectOptimalMethod na = MeshModified \<longleftrightarrow> currentSourceCount na > 0))"
  using assms
  by (simp add: selectOptimalMethod_def adjustedNodalComplexity_def adjustedMeshComplexity_def
      nodalEquations_def meshEquations_def)

theorem selectOptimalMethod_general_witness:
  "selectOptimalMethod (generalAnalysis 4 6 1 1) = NodalModified
   \<and> selectOptimalMethod (generalAnalysis 4 5 1 0) = Mesh"
proof -
  have a: "selectOptimalMethod (generalAnalysis 4 6 1 1) = NodalModified"
    using selectOptimalMethod_general [of "generalAnalysis 4 6 1 1"]
    by (auto simp: generalAnalysis_def)
  have b: "selectOptimalMethod (generalAnalysis 4 5 1 0) = Mesh"
    using selectOptimalMethod_general [of "generalAnalysis 4 5 1 0"]
    by (auto simp: generalAnalysis_def)
  from a b show ?thesis by simp
qed

section \<open>Branch currents of the general methods\<close>

lemma map_set_keys: "fst ` set (map_set k v m) = insert k (fst ` set m)"
  by (induction m) (auto split: if_splits simp: rev_image_eqI)

lemma map_set_entry: "(a, b) \<in> set (map_set k v m) \<Longrightarrow> b = v \<or> (a, b) \<in> set m"
  by (induction m) (auto split: if_splits)

lemma map_set_values: "snd ` set (map_set k v m) \<subseteq> insert v (snd ` set m)"
  using map_set_entry [of _ _ k v m] by force

lemma placeholder_fold_keys:
  "fst ` set (foldl (\<lambda>bc (branchId, index). map_set branchId (0::real) bc) acc bim)
     = fst ` set acc \<union> fst ` set bim"
proof (induction bim arbitrary: acc)
  case Nil
  show ?case by simp
next
  case (Cons e bim)
  obtain b i where e: "e = (b, i)" by (cases e)
  show ?case
    by (simp add: e Cons.IH map_set_keys)
qed

lemma placeholder_fold_values:
  "snd ` set acc \<subseteq> {0}
    \<Longrightarrow> snd ` set (foldl (\<lambda>bc (branchId, index). map_set branchId (0::real) bc) acc bim) \<subseteq> {0}"
proof (induction bim arbitrary: acc)
  case Nil
  then show ?case by simp
next
  case (Cons e bim)
  obtain b i where e: "e = (b, i)" by (cases e)
  have "snd ` set (map_set b (0::real) acc) \<subseteq> {0}"
    using map_set_values [of b 0 acc] Cons.prems by auto
  from Cons.IH [OF this] show ?case
    by (simp add: e)
qed

text \<open>
  C10. For every method other than \<open>series\<close> and \<open>parallel\<close> (so for nodal,
  nodal_modified, mesh and mesh_modified), the branch-current map produced by the
  equation solver has exactly the branches of the index map as keys and assigns current
  0 to each of them; hence a non-zero branch current is reported only for the series and
  parallel closed forms.
\<close>

theorem extractBranchCurrents_general_zero:
  "(method \<noteq> Series \<and> method \<noteq> Parallel \<longrightarrow>
      (\<exists>bc. extractBranchCurrents solution method indexMap = Inr bc
            \<and> fst ` set bc = fst ` set indexMap
            \<and> (\<forall>(branchId, cur) \<in> set bc. cur = 0)))
   \<and> (\<forall>bc branchId cur.
        extractBranchCurrents solution method indexMap = Inr bc
        \<and> (branchId, cur) \<in> set bc \<and> cur \<noteq> 0
        \<longrightarrow> method = Series \<or> method = Parallel)"
proof -
  let ?bc = "foldl (\<lambda>bc (branchId, index). map_set branchId (0::real) bc) [] indexMap"
  have keys: "fst ` set ?bc = fst ` set indexMap"
    using placeholder_fold_keys [of "[]" indexMap] by simp
  have "snd ` set ?bc \<subseteq> {0}"
    by (rule placeholder_fold_values) simp
  then have vals: "\<forall>(branchId, cur) \<in> set ?bc. cur = 0"
    by force
  have general: "extractBranchCurrents solution method indexMap = Inr ?bc"
    if "method \<noteq> Series" "method \<noteq> Parallel"
    using that by (simp add: extractBranchCurrents_def)
  show ?thesis
    using keys vals general by fastforce
qed

theorem extractBranchCurrents_general_zero_witness:
  "extractBranchCurrents (Some [3, 4]) Mesh [(''branch_0'', 0), (''branch_1'', 1)]
     = Inr [(''branch_0'', 0), (''branch_1'', 0)]
   \<and> extractBranchCurrents (Some [3, 4]) Parallel [(''branch_0'', 0), (''branch_1'', 1)]
     = Inr [(''branch_0'', 3), (''branch_1'', 4)]"
proof -
  have "\<exists>bc. extractBranchCurrents (Some [3, 4]) Mesh [(''branch_0'', 0), (''branch_1'', 1)] = Inr bc
            \<and> (\<forall>(branchId, cur) \<in> set bc. cur = 0)"
    using extractBranchCurrents_general_zero
            [of Mesh "Some [3, 4]" "[(''branch_0'', 0), (''branch_1'', 1)]"]
    by auto
  then show ?thesis
    by (simp add: extractBranchCurrents_def js_index_def or_zero_def)
qed

section \<open>Meshes recorded by the greedy walk\<close>

text \<open>
  C5 (evaluation at two inputs). Three resistors in a row, \<open>n0 - n1 - n2 - n3\<close>: the
  walk from the first branch runs out of branches at \<open>n3\<close> without returning to \<open>n0\<close>,
  and \<^verbatim>\<open>findMeshes\<close> records its three branches as a mesh although they are not a
  closed walk. Two triangles that share a branch: the first walk closes and marks the
  shared branch as visited; the second walk starts at \<open>n0\<close>, runs out of branches at
  \<open>n2\<close>, and is recorded as a mesh all the same.
\<close>

theorem findMeshes_records_open_walk:
  "map branches
     (findMeshes [mkResistorBranch ''branch_0'' ''n0'' ''n1'' 1,
                  mkResistorBranch ''branch_1'' ''n1'' ''n2'' 1,
                  mkResistorBranch ''branch_2'' ''n2'' ''n3'' 1])
     = [[mkResistorBranch ''branch_0'' ''n0'' ''n1'' 1,
         mkResistorBranch ''branch_1'' ''n1'' ''n2'' 1,
         mkResistorBranch ''branch_2'' ''n2'' ''n3'' 1]]
   \<and> \<not> isClosedWalk [mkResistorBranch ''branch_0'' ''n0'' ''n1'' 1,
                       mkResistorBranch ''branch_1'' ''n1'' ''n2'' 1,
                       mkResistorBranch ''branch_2'' ''n2'' ''n3'' 1]
   \<and> followBranches ''n0'' [mkResistorBranch ''branch_0'' ''n0'' ''n1'' 1,
                              mkResistorBranch ''branch_1'' ''n1'' ''n2'' 1,
                              mkResistorBranch ''branch_2'' ''n2'' ''n3'' 1] = Some ''n3''
   \<and> map (map branch_id \<circ> branches) (findMeshes twoLoops)
       = [[''branch_0'', ''branch_1'', ''branch_2''], [''branch_3'', ''branch_4'', ''branch_5'']]
   \<and> map (isClosedWalk \<circ> branches) (findMeshes twoLoops) = [True, False]"
  by (simp add: twoLoops_def findMeshes_def findMeshes_step_def findMeshFromBranch_def
      mkResistorBranch_def isClosedWalk_def getNodesFromBranches_def set_add_def)

section \<open>The mesh impedance matrix\<close>

lemma fill_row:
  assumes "i < length Z" "n \<le> length (Z ! i)"
  shows "foldl (\<lambda>Z j. Z[i := (Z ! i)[j := f j]]) Z [0..<n]
           = Z[i := map f [0..<n] @ drop n (Z ! i)]"
  using assms
proof (induction n)
  case 0
  then show ?case by simp
next
  case (Suc n)
  then have n: "n < length (Z ! i)" by simp
  have "(map f [0..<n] @ drop n (Z ! i))[n := f n] = map f [0..<n] @ (drop n (Z ! i))[0 := f n]"
    by (simp add: list_update_append)
  also have "(drop n (Z ! i))[0 := f n] = f n # drop (Suc n) (Z ! i)"
    using n by (metis Cons_nth_drop_Suc list_update_code(2))
  finally show ?case using Suc by simp
qed

lemma fill_matrix:
  assumes "n \<le> length Z" "\<forall>r < length Z. length (Z ! r) = m"
  shows "foldl (\<lambda>Z i. foldl (\<lambda>Z j. Z[i := (Z ! i)[j := f i j]]) Z [0..<m]) Z [0..<n]
           = map (\<lambda>i. map (f i) [0..<m]) [0..<n] @ drop n Z"
  using assms
proof (induction n)
  case 0
  then show ?case by simp
next
  case (Suc n)
  let ?Z' = "map (\<lambda>i. map (f i) [0..<m]) [0..<n] @ drop n Z"
  have n: "n < length Z" using Suc.prems by simp
  have len: "length ?Z' = length Z" using n by simp
  have row: "?Z' ! n = Z ! n" using n by (simp add: nth_append)
  have lenrow: "length (Z ! n) = m" using Suc.prems n by simp
  have "foldl (\<lambda>Z j. Z[n := (Z ! n)[j := f n j]]) ?Z' [0..<m]
          = ?Z'[n := map (f n) [0..<m] @ drop m (?Z' ! n)]"
    by (rule fill_row) (simp_all add: len n row lenrow)
  also have "\<dots> = ?Z'[n := map (f n) [0..<m]]"
    by (simp add: row lenrow)
  also have "\<dots> = map (\<lambda>i. map (f i) [0..<m]) [0..<n] @ (drop n Z)[0 := map (f n) [0..<m]]"
    by (simp add: list_update_append)
  also have "(drop n Z)[0 := map (f n) [0..<m]] = map (f n) [0..<m] # drop (Suc n) Z"
    using n by (metis Cons_nth_drop_Suc list_update_code(2))
  finally show ?case using Suc by simp
qed

lemma buildMeshImpedanceMatrix_eq:
  "buildMeshImpedanceMatrix meshes (createMatrix (length meshes) (length meshes))
     = map (\<lambda>i. map (meshEntry meshes i) [0..<length meshes]) [0..<length meshes]"
  unfolding buildMeshImpedanceMatrix_def createMatrix_def
  by (subst fill_matrix) simp_all

lemma sumImpedance_acc:
  "foldl (\<lambda>sum b. sum + num_or_zero (real_part (impedance b))) a bs
     = a + sum_list (map (\<lambda>b. real_part (impedance b)) bs)"
  by (induction bs arbitrary: a) (simp_all add: num_or_zero_def)

lemma sumImpedance_sum: "sumImpedance bs = sum_list (map (\<lambda>b. real_part (impedance b)) bs)"
  by (simp add: sumImpedance_def sumImpedance_acc)

lemma meshWalk_grows:
  "meshWalk n cur st allB V M = (M', V') \<Longrightarrow> set M \<subseteq> set M' \<and> V \<subseteq> V'"
proof (induction n arbitrary: cur V M)
  case 0
  then show ?case by simp
next
  case (Suc n)
  show ?case
  proof (cases "cur = st")
    case True
    with Suc.prems show ?thesis by simp
  next
    case False
    show ?thesis
    proof (cases "find (\<lambda>b. branch_id b \<notin> V \<and> (startNodeId b = cur \<or> endNodeId b = cur)) allB")
      case None
      with False Suc.prems show ?thesis by simp
    next
      case (Some nb)
      with False Suc.prems have
        "meshWalk n (if startNodeId nb = cur then endNodeId nb else startNodeId nb) st allB
           (insert (branch_id nb) V) (M @ [nb]) = (M', V')"
        by simp
      from Suc.IH [OF this] show ?thesis by auto
    qed
  qed
qed

lemma meshWalk_fresh:
  "meshWalk n cur st allB V M = (M', V')
     \<Longrightarrow> branchIds M' \<subseteq> branchIds M \<union> (V' - V) \<and> V' \<subseteq> V \<union> branchIds M'"
proof (induction n arbitrary: cur V M)
  case 0
  then show ?case by simp
next
  case (Suc n)
  show ?case
  proof (cases "cur = st")
    case True
    with Suc.prems show ?thesis by simp
  next
    case False
    show ?thesis
    proof (cases "find (\<lambda>b. branch_id b \<notin> V \<and> (startNodeId b = cur \<or> endNodeId b = cur)) allB")
      case None
      with False Suc.prems show ?thesis by simp
    next
      case (Some nb)
      then have fresh: "branch_id nb \<notin> V"
        by (auto simp: find_Some_iff)
      from Some False Suc.prems have run:
        "meshWalk n (if startNodeId nb = cur then endNodeId nb else startNodeId nb) st allB
           (insert (branch_id nb) V) (M @ [nb]) = (M', V')"
        by simp
      from meshWalk_grows [OF run] have g: "nb \<in> set M'" "branch_id nb \<in> V'"
        by auto
      from Suc.IH [OF run] have
        ih1: "branchIds M' \<subseteq> branchIds (M @ [nb]) \<union> (V' - insert (branch_id nb) V)" and
        ih2: "V' \<subseteq> insert (branch_id nb) V \<union> branchIds M'"
        by auto
      have a: "branchIds M' \<subseteq> branchIds M \<union> (V' - V)"
        using ih1 fresh g by (auto simp: branchIds_def)
      have b: "V' \<subseteq> V \<union> branchIds M'"
        using ih2 g by (auto simp: branchIds_def)
      from a b show ?thesis by simp
    qed
  qed
qed

lemma findMeshFromBranch_fresh:
  assumes "branch_id sb \<notin> V" "findMeshFromBranch sb allB V = (M', V')"
  shows "branchIds M' \<inter> V = {}" "V' \<subseteq> V \<union> branchIds M'" "V \<subseteq> V'"
    "branchIds M' \<subseteq> V'"
proof -
  from assms(2) have run:
    "meshWalk (length allB + 1) (endNodeId sb) (startNodeId sb) allB (insert (branch_id sb) V) [sb]
       = (M', V')"
    by (simp add: findMeshFromBranch_def)
  from meshWalk_fresh [OF run] meshWalk_grows [OF run] assms(1)
  show "branchIds M' \<inter> V = {}" "V' \<subseteq> V \<union> branchIds M'" "V \<subseteq> V'"
    "branchIds M' \<subseteq> V'"
    by (auto simp: branchIds_def)
qed

lemma meshesDisjoint_snoc:
  assumes "meshesDisjoint ms" "\<forall>m \<in> set ms. branchIds (branches m) \<inter> branchIds (branches x) = {}"
  shows "meshesDisjoint (ms @ [x])"
  unfolding meshesDisjoint_def
proof (intro allI impI)
  fix i j assume i: "i < length (ms @ [x])" and j: "j < length (ms @ [x])" and ne: "i \<noteq> j"
  consider "i < length ms" "j < length ms" | "i < length ms" "j = length ms"
    | "i = length ms" "j < length ms"
    using i j ne by fastforce
  then show "branchIds (branches ((ms @ [x]) ! i)) \<inter> branchIds (branches ((ms @ [x]) ! j)) = {}"
  proof cases
    case 1
    then show ?thesis using assms(1) ne by (simp add: meshesDisjoint_def nth_append)
  next
    case 2
    then show ?thesis using assms(2) by (simp add: nth_append)
  next
    case 3
    then show ?thesis using assms(2) by (auto simp: nth_append)
  qed
qed

lemma findMeshes_step_inv:
  assumes "meshInv st"
  shows "meshInv (findMeshes_step allB st sb)"
proof -
  obtain ms V where st: "st = (ms, V)" by (cases st)
  from assms st have dj: "meshesDisjoint ms" and sub: "\<forall>m \<in> set ms. branchIds (branches m) \<subseteq> V"
    by (simp_all add: meshInv_def)
  show ?thesis
  proof (cases "branch_id sb \<in> V")
    case True
    then show ?thesis using assms st by (simp add: findMeshes_step_def)
  next
    case False
    obtain M' V' where run: "findMeshFromBranch sb allB V = (M', V')"
      by (cases "findMeshFromBranch sb allB V")
    note fr = findMeshFromBranch_fresh [OF False run]
    have sub': "\<forall>m \<in> set ms. branchIds (branches m) \<subseteq> V'"
      using sub fr(3) by blast
    show ?thesis
    proof (cases "length M' > 2")
      case True
      let ?x = "\<lparr>mesh_id = ''mesh_'' @ digits (length ms), branches = M',
                 nodes = getNodesFromBranches M'\<rparr>"
      have res: "findMeshes_step allB st sb = (ms @ [?x], V')"
        using st False run True by (simp add: findMeshes_step_def)
      have "\<forall>m \<in> set ms. branchIds (branches m) \<inter> branchIds (branches ?x) = {}"
        using sub fr(1) by auto
      from meshesDisjoint_snoc [OF dj this] have "meshesDisjoint (ms @ [?x])" .
      moreover have "branchIds (branches ?x) \<subseteq> V'"
        using fr(4) by simp
      ultimately show ?thesis
        using sub' by (simp add: res meshInv_def)
    next
      case F: False
      have res: "findMeshes_step allB st sb = (ms, V')"
        using st False run F by (simp add: findMeshes_step_def)
      show ?thesis using dj sub' by (simp add: res meshInv_def)
    qed
  qed
qed

lemma findMeshes_fold_inv:
  "meshInv st \<Longrightarrow> meshInv (foldl (findMeshes_step allB) st xs)"
  by (induction xs arbitrary: st) (simp_all add: findMeshes_step_inv)

lemma findMeshes_disjoint: "meshesDisjoint (findMeshes allB)"
proof -
  have "meshInv ([], {})" by (simp add: meshInv_def meshesDisjoint_def)
  from findMeshes_fold_inv [OF this, of allB allB] show ?thesis
    by (simp add: findMeshes_def meshInv_def)
qed

lemma disjoint_no_shared:
  assumes "branchIds (branches m1) \<inter> branchIds (branches m2) = {}"
  shows "findSharedBranches m1 m2 = []"
  using assms
  by (auto simp: findSharedBranches_def branchIds_def filter_empty_conv list_ex_iff)

text \<open>
  C1 (the claim as stated fails). Two meshes that share the 5-ohm branch \<open>branch_2\<close>:
  the builder writes \<open>+5\<close>, the sum of the shared impedances, into both off-diagonal
  entries, not its negative.
\<close>

theorem mesh_offdiagonal_not_negated:
  "(let m0 = mkMesh ''mesh_0'' [mkResistorBranch ''branch_0'' ''n0'' ''n1'' 1,
                               mkResistorBranch ''branch_1'' ''n1'' ''n2'' 2,
                               mkResistorBranch ''branch_2'' ''n2'' ''n0'' 5];
        m1 = mkMesh ''mesh_1'' [mkResistorBranch ''branch_2'' ''n2'' ''n0'' 5,
                               mkResistorBranch ''branch_3'' ''n0'' ''n3'' 3,
                               mkResistorBranch ''branch_4'' ''n3'' ''n2'' 4]
    in map_sum id systemMatrix (buildMeshMatrices [m0, m1] (emptyMatrices Mesh))
         = Inr (Some [[8, 5], [5, 12]])
       \<and> [[8, 5], [5, 12]] ! 0 ! 1
           \<noteq> - sum_list (map (\<lambda>b. real_part (impedance b)) (findSharedBranches m0 m1)))"
  by (simp add: buildMeshMatrices_def buildMeshImpedanceMatrix_def buildMeshVoltageVector_def
      meshVoltage_def createMatrix_def meshEntry_def sumImpedance_def findSharedBranches_def
      mkMesh_def mkResistorBranch_def num_or_zero_def emptyMatrices_def Let_def upt_rec)

text \<open>
  C1 (as amended). When \<^verbatim>\<open>buildMeshMatrices\<close> succeeds on \<open>m\<close> meshes, the system matrix is
  \<open>m \<times> m\<close>; its diagonal entry \<open>(i, i)\<close> is the sum of the real impedance parts of the
  branches of mesh \<open>i\<close>; its off-diagonal entry \<open>(i, j)\<close> is the sum, not negated, of the
  real impedance parts of the branches of mesh \<open>i\<close> whose id occurs in mesh \<open>j\<close>; and when
  the meshes are those found by the greedy mesh search, which never share a branch,
  every off-diagonal entry is 0.
\<close>

theorem buildMeshMatrices_entries:
  assumes "buildMeshMatrices meshes mats = Inr mats'"
  shows "\<exists>Z. systemMatrix mats' = Some Z \<and> length Z = length meshes
          \<and> (\<forall>i < length meshes.
                length (Z ! i) = length meshes
              \<and> Z ! i ! i = sum_list (map (\<lambda>b. real_part (impedance b)) (branches (meshes ! i)))
              \<and> (\<forall>j < length meshes. i \<noteq> j \<longrightarrow>
                    Z ! i ! j = sum_list (map (\<lambda>b. real_part (impedance b))
                                            (findSharedBranches (meshes ! i) (meshes ! j)))
                  \<and> (meshes = findMeshes allBranches \<longrightarrow> Z ! i ! j = 0)))"
proof -
  let ?m = "length meshes"
  let ?Z = "map (\<lambda>i. map (meshEntry meshes i) [0..<?m]) [0..<?m]"
  from assms have Z: "systemMatrix mats' = Some ?Z"
    by (auto simp: buildMeshMatrices_def Let_def buildMeshImpedanceMatrix_eq
             split: if_splits sum.splits)
  have diag: "?Z ! i ! i = sum_list (map (\<lambda>b. real_part (impedance b)) (branches (meshes ! i)))"
    if "i < ?m" for i
    using that by (simp add: meshEntry_def sumImpedance_sum)
  have off: "?Z ! i ! j = sum_list (map (\<lambda>b. real_part (impedance b))
                                       (findSharedBranches (meshes ! i) (meshes ! j)))"
    if "i < ?m" "j < ?m" "i \<noteq> j" for i j
    using that by (simp add: meshEntry_def sumImpedance_sum)
  have zero: "?Z ! i ! j = 0"
    if "i < ?m" "j < ?m" "i \<noteq> j" "meshes = findMeshes allBranches" for i j
  proof -
    have "meshesDisjoint meshes"
      using that(4) findMeshes_disjoint by simp
    then have "findSharedBranches (meshes ! i) (meshes ! j) = []"
      using that(1-3) by (intro disjoint_no_shared) (simp add: meshesDisjoint_def)
    then show ?thesis using off [OF that(1-3)] by simp
  qed
  have all: "\<forall>i < ?m.
          length (?Z ! i) = ?m
        \<and> ?Z ! i ! i = sum_list (map (\<lambda>b. real_part (impedance b)) (branches (meshes ! i)))
        \<and> (\<forall>j < ?m. i \<noteq> j \<longrightarrow>
              ?Z ! i ! j = sum_list (map (\<lambda>b. real_part (impedance b))
                                      (findSharedBranches (meshes ! i) (meshes ! j)))
            \<and> (meshes = findMeshes allBranches \<longrightarrow> ?Z ! i ! j = 0))"
  proof (intro allI impI conjI)
    fix i assume "i < ?m"
    then show "length (?Z ! i) = ?m" by simp
  next
    fix i assume "i < ?m"
    then show "?Z ! i ! i = sum_list (map (\<lambda>b. real_part (impedance b)) (branches (meshes ! i)))"
      by (rule diag)
  next
    fix i j assume "i < ?m" "j < ?m" "i \<noteq> j"
    then show "?Z ! i ! j = sum_list (map (\<lambda>b. real_part (impedance b))
                                        (findSharedBranches (meshes ! i) (meshes ! j)))"
      by (rule off)
  next
    fix i j assume "i < ?m" "j < ?m" "i \<noteq> j" "meshes = findMeshes allBranches"
    then show "?Z ! i ! j = 0"
      by (rule zero)
  qed
  have len: "length ?Z = ?m" by simp
  from Z len all show ?thesis
    by blast
qed

theorem buildMeshMatrices_entries_witness:
  "(let m0 = mkMesh ''mesh_0'' [mkResistorBranch ''branch_0'' ''n0'' ''n1'' 1,
                               mkResistorBranch ''branch_1'' ''n1'' ''n2'' 2,
                               mkResistorBranch ''branch_2'' ''n2'' ''n0'' 5];
        m1 = mkMesh ''mesh_1'' [mkResistorBranch ''branch_2'' ''n2'' ''n0'' 5,
                               mkResistorBranch ''branch_3'' ''n0'' ''n3'' 3,
                               mkResistorBranch ''branch_4'' ''n3'' ''n2'' 4]
    in \<exists>mats' Z. buildMeshMatrices [m0, m1] (emptyMatrices Mesh) = Inr mats'
         \<and> systemMatrix mats' = Some Z
         \<and> Z ! 0 ! 0 = 8 \<and> Z ! 1 ! 1 = 12 \<and> Z ! 0 ! 1 = 5 \<and> Z ! 1 ! 0 = 5)"
proof -
  let ?m0 = "mkMesh ''mesh_0'' [mkResistorBranch ''branch_0'' ''n0'' ''n1'' 1,
                               mkResistorBranch ''branch_1'' ''n1'' ''n2'' 2,
                               mkResistorBranch ''branch_2'' ''n2'' ''n0'' 5]"
  let ?m1 = "mkMesh ''mesh_1'' [mkResistorBranch ''branch_2'' ''n2'' ''n0'' 5,
                               mkResistorBranch ''branch_3'' ''n0'' ''n3'' 3,
                               mkResistorBranch ''branch_4'' ''n3'' ''n2'' 4]"
  have "\<exists>mats'. buildMeshMatrices [?m0, ?m1] (emptyMatrices Mesh) = Inr mats'"
    by (simp add: buildMeshMatrices_def buildMeshVoltageVector_def meshVoltage_def
        mkMesh_def mkResistorBranch_def Let_def)
  then obtain mats' where ok: "buildMeshMatrices [?m0, ?m1] (emptyMatrices Mesh) = Inr mats'"
    by blast
  from buildMeshMatrices_entries [OF ok, of "[]"] obtain Z where
    Z: "systemMatrix mats' = Some Z" and
    ent: "\<forall>i < length [?m0, ?m1].
            length (Z ! i) = length [?m0, ?m1]
          \<and> Z ! i ! i = sum_list (map (\<lambda>b. real_part (impedance b)) (branches ([?m0, ?m1] ! i)))
          \<and> (\<forall>j < length [?m0, ?m1]. i \<noteq> j \<longrightarrow>
                Z ! i ! j = sum_list (map (\<lambda>b. real_part (impedance b))
                                        (findSharedBranches ([?m0, ?m1] ! i) ([?m0, ?m1] ! j)))
              \<and> ([?m0, ?m1] = findMeshes [] \<longrightarrow> Z ! i ! j = 0))"
    by blast
  have e0: "Z ! 0 ! 0 = 8" "Z ! 0 ! 1 = 5"
    using ent [rule_format, of 0] ent [THEN spec, of 0, THEN mp, THEN conjunct2, THEN conjunct2,
                                       THEN spec, of 1]
    by (simp_all add: mkMesh_def mkResistorBranch_def findSharedBranches_def)
  have e1: "Z ! 1 ! 1 = 12" "Z ! 1 ! 0 = 5"
    using ent [rule_format, of 1] ent [THEN spec, of 1, THEN mp, THEN conjunct2, THEN conjunct2,
                                       THEN spec, of 0]
    by (simp_all add: mkMesh_def mkResistorBranch_def findSharedBranches_def)
  from ok Z e0 e1 show ?thesis
    by (simp add: Let_def)
qed

section \<open>The coordinator: validity, writes and the cache\<close>

lemma sameUpToElectrical_refl: "sameUpToElectrical circ circ"
  by (simp add: sameUpToElectrical_def)

lemma sameUpToElectrical_trans:
  "sameUpToElectrical a b \<Longrightarrow> sameUpToElectrical b c \<Longrightarrow> sameUpToElectrical a c"
  by (simp add: sameUpToElectrical_def)




lemma updateFirst_erase:
  "map eraseElectrical
     (updateFirst P (\<lambda>c. c\<lparr>current := i, voltage := v, power := p\<rparr>) cs)
     = map eraseElectrical cs"
  by (induction cs) (simp_all add: eraseElectrical_def)

lemma calculatePower_number [simp]:
  "calculatePower (Some v) (Some i) (None :: component option) = Inr \<bar>v * i\<bar>"
  "calculatePower None (Some i) (None :: component option)
     = Inl (Error ''Parametros invalidos para calculo de potencia'')"
  by (simp_all add: calculatePower_def)

lemma numberOf_cases:
  obtains (number) x where "v = Num x" "numberOf v = Some x" | (other) "numberOf v = None"
  by (cases v) simp_all

lemma calculateVoltage_defined: "\<exists>v. calculateVoltage (Some c) (Some i) = Inr v"
  by (simp add: calculateVoltage_def)

lemma calculateVoltage_number:
  assumes "storedVoltageNumeric c"
  shows "\<exists>x. calculateVoltage (Some c) (Some i) = Inr (Num x)"
proof (cases "comp_type c = Capacitor")
  case True
  with assms have "numberOf (js_or (voltage c) (Num 0)) \<noteq> None"
    by (simp add: storedVoltageNumeric_def)
  then obtain x where "js_or (voltage c) (Num 0) = Num x"
    by (cases "js_or (voltage c) (Num 0)") simp_all
  with True show ?thesis
    by (simp add: calculateVoltage_def calculateCapacitorVoltage_def)
next
  case False
  then show ?thesis
    by (cases "comp_type c") (simp_all add: calculateVoltage_def)
qed

lemma storedVoltageNumeric_written:
  "storedVoltageNumeric (c\<lparr>current := i, voltage := Num x, power := p\<rparr>)"
  by (simp add: storedVoltageNumeric_def js_or_def)

lemma updateFirst_set:
  "d \<in> set (updateFirst P f cs) \<Longrightarrow> d \<in> set cs \<or> (\<exists>c \<in> set cs. d = f c)"
  by (induction cs) (auto split: if_splits)

lemma assignCurrentToComponent_cases:
  obtains
    (written) results' circ' where
      "assignCurrentToComponent cid i circ results = Inr (results', circ')"
      "sameUpToElectrical circ circ'"
      "res_isValid results' \<longleftrightarrow> res_isValid results"
      "fromCache results' = fromCache results"
      "(\<forall>d \<in> set (components circ). storedVoltageNumeric d)
         \<longrightarrow> (\<forall>d \<in> set (components circ'). storedVoltageNumeric d)"
  | (thrown) c where
      "assignCurrentToComponent cid i circ results
         = Inl (Error ''Parametros invalidos para calculo de potencia'')"
      "c \<in> set (components circ)" "\<not> storedVoltageNumeric c"
proof (cases "find (\<lambda>c. comp_id c = cid) (components circ)")
  case None
  show ?thesis
    by (rule written [of results circ])
       (simp_all add: assignCurrentToComponent_def None sameUpToElectrical_refl)
next
  case (Some c)
  then have mem: "c \<in> set (components circ)"
    by (auto simp: find_Some_iff)
  obtain v where v: "calculateVoltage (Some c) (Some i) = Inr v"
    using calculateVoltage_defined by blast
  show ?thesis
  proof (cases v rule: numberOf_cases)
    case (number x)
    let ?circ' = "circ\<lparr>components :=
             updateFirst (\<lambda>c. comp_id c = cid)
               (\<lambda>c. c\<lparr>current := i, voltage := Num x, power := \<bar>x * i\<bar>\<rparr>) (components circ)\<rparr>"
    have keep: "\<forall>d \<in> set (components ?circ'). storedVoltageNumeric d"
      if "\<forall>d \<in> set (components circ). storedVoltageNumeric d"
    proof
      fix d assume "d \<in> set (components ?circ')"
      then have "d \<in> set (components circ)
                 \<or> (\<exists>c \<in> set (components circ).
                       d = c\<lparr>current := i, voltage := Num x, power := \<bar>x * i\<bar>\<rparr>)"
        using updateFirst_set [of d "\<lambda>c. comp_id c = cid"
                "\<lambda>c. c\<lparr>current := i, voltage := Num x, power := \<bar>x * i\<bar>\<rparr>" "components circ"]
        by simp
      then show "storedVoltageNumeric d"
        using that storedVoltageNumeric_written by auto
    qed
    show ?thesis
      by (rule written [of
            "results\<lparr>componentValues :=
               map_set cid
                 \<lparr>val_current = i, val_voltage = Num x, val_power = \<bar>x * i\<bar>,
                  val_resistance = (if comp_type c = Resistor then Some (value c) else None)\<rparr>
                 (componentValues results)\<rparr>" ?circ'])
         (simp_all add: assignCurrentToComponent_def Some v number sameUpToElectrical_def
            updateFirst_erase keep)
  next
    case other
    have "\<not> storedVoltageNumeric c"
    proof
      assume "storedVoltageNumeric c"
      from calculateVoltage_number [OF this, of i] v other show False by auto
    qed
    with mem show ?thesis
      by (intro thrown [of c]) (simp_all add: assignCurrentToComponent_def Some v other)
  qed
qed

lemma assignCurrentToComponent_independent:
  "map_sum id snd (assignCurrentToComponent cid i circ results)
     = map_sum id snd (assignCurrentToComponent cid i circ results')"
  by (simp add: assignCurrentToComponent_def split: option.splits sum.splits)

text \<open>
  The branch loop: the circuit it leaves differs from the one it started with in
  electrical fields only; it stops with an exception only for a capacitor whose stored
  voltage is not a number, and the exception is that of the power computation.
\<close>

lemma processBranches_props:
  "sameUpToElectrical circ (snd (snd (processBranches bc xs (results, circ))))
   \<and> (fst (processBranches bc xs (results, circ)) = None \<longrightarrow>
        (res_isValid (fst (snd (processBranches bc xs (results, circ)))) \<longleftrightarrow> res_isValid results)
      \<and> fromCache (fst (snd (processBranches bc xs (results, circ)))) = fromCache results)
   \<and> (fst (processBranches bc xs (results, circ)) \<noteq> None \<longrightarrow>
        fst (processBranches bc xs (results, circ))
          = Some (Error ''Parametros invalidos para calculo de potencia''))
   \<and> ((\<forall>d \<in> set (components circ). storedVoltageNumeric d) \<longrightarrow>
        fst (processBranches bc xs (results, circ)) = None)"
proof (induction xs arbitrary: results circ)
  case Nil
  show ?case by (simp add: sameUpToElectrical_refl)
next
  case (Cons x xs)
  obtain index b where x: "x = (index, b)" by (cases x)
  let ?i = "or_zero (mapObjectProperty bc index)"
  let ?r1 = "results\<lparr>branchCurrents := map_set (branch_id b) ?i (branchCurrents results)\<rparr>"
  let ?step = "if truthyString (componentId b)
               then assignCurrentToComponent (the (componentId b)) ?i circ ?r1
               else Inr (?r1, circ)"
  consider
    (written) r2 c2 where "?step = Inr (r2, c2)" "sameUpToElectrical circ c2"
      "res_isValid r2 \<longleftrightarrow> res_isValid results" "fromCache r2 = fromCache results"
      "(\<forall>d \<in> set (components circ). storedVoltageNumeric d)
         \<longrightarrow> (\<forall>d \<in> set (components c2). storedVoltageNumeric d)"
  | (thrown) c where
      "?step = Inl (Error ''Parametros invalidos para calculo de potencia'')"
      "c \<in> set (components circ)" "\<not> storedVoltageNumeric c"
  proof (cases "truthyString (componentId b)")
    case True
    show ?thesis
    proof (cases rule: assignCurrentToComponent_cases
        [where cid = "the (componentId b)" and i = ?i and circ = circ and results = ?r1])
      case (written r c)
      then show ?thesis using True by (intro that(1) [of r c]) simp_all
    next
      case (thrown c)
      then show ?thesis using True by (intro that(2) [of c]) simp_all
    qed
  next
    case False
    show ?thesis
      using False by (intro that(1) [of ?r1 circ]) (simp_all add: sameUpToElectrical_refl)
  qed
  then show ?case
  proof cases
    case (written r2 c2)
    let ?r3 = "if truthyString (wireId b)
               then r2\<lparr>currentFlow := map_set (the (wireId b)) ?i (currentFlow r2)\<rparr> else r2"
    have unfold: "processBranches bc (x # xs) (results, circ) = processBranches bc xs (?r3, c2)"
      using written(1) by (simp add: x Let_def)
    have r3: "res_isValid ?r3 \<longleftrightarrow> res_isValid results" "fromCache ?r3 = fromCache results"
      using written(3,4) by simp_all
    note ih = Cons.IH [where results = ?r3 and circ = c2]
    from ih have s3: "sameUpToElectrical c2 (snd (snd (processBranches bc xs (?r3, c2))))"
      by simp
    have s: "sameUpToElectrical circ (snd (snd (processBranches bc xs (?r3, c2))))"
      using written(2) s3 by (rule sameUpToElectrical_trans)
    from ih have f: "fst (processBranches bc xs (?r3, c2)) = None \<longrightarrow>
        (res_isValid (fst (snd (processBranches bc xs (?r3, c2)))) \<longleftrightarrow> res_isValid results)
      \<and> fromCache (fst (snd (processBranches bc xs (?r3, c2)))) = fromCache results"
      using r3 by simp
    from ih have e: "fst (processBranches bc xs (?r3, c2)) \<noteq> None \<longrightarrow>
        fst (processBranches bc xs (?r3, c2))
          = Some (Error ''Parametros invalidos para calculo de potencia'')"
      by simp
    from ih written(5) have n: "(\<forall>d \<in> set (components circ). storedVoltageNumeric d) \<longrightarrow>
        fst (processBranches bc xs (?r3, c2)) = None"
      by simp
    show ?thesis
      unfolding unfold using s f e n by simp
  next
    case (thrown c)
    have unfold: "processBranches bc (x # xs) (results, circ)
                    = (Some (Error ''Parametros invalidos para calculo de potencia''), ?r1, circ)"
      using thrown(1) by (simp add: x Let_def)
    show ?thesis
      unfolding unfold using thrown(2,3) by (auto simp: sameUpToElectrical_refl)
  qed
qed

lemma processBranches_independent:
  "fst (processBranches bc xs (results, circ)) = fst (processBranches bc xs (results', circ))
   \<and> snd (snd (processBranches bc xs (results, circ)))
       = snd (snd (processBranches bc xs (results', circ)))"
proof (induction xs arbitrary: results results' circ)
  case Nil
  show ?case by simp
next
  case (Cons x xs)
  obtain index b where x: "x = (index, b)" by (cases x)
  let ?i = "or_zero (mapObjectProperty bc index)"
  let ?r1 = "results\<lparr>branchCurrents := map_set (branch_id b) ?i (branchCurrents results)\<rparr>"
  let ?r1' = "results'\<lparr>branchCurrents := map_set (branch_id b) ?i (branchCurrents results')\<rparr>"
  let ?step = "if truthyString (componentId b)
               then assignCurrentToComponent (the (componentId b)) ?i circ ?r1
               else Inr (?r1, circ)"
  let ?step' = "if truthyString (componentId b)
               then assignCurrentToComponent (the (componentId b)) ?i circ ?r1'
               else Inr (?r1', circ)"
  have same: "map_sum id snd ?step = map_sum id snd ?step'"
    using assignCurrentToComponent_independent
            [of "the (componentId b)" ?i circ ?r1 ?r1']
    by simp
  show ?case
  proof (cases ?step)
    case (Inl e)
    with same have "?step' = Inl e" by (cases ?step') simp_all
    with Inl show ?thesis by (simp add: x Let_def)
  next
    case (Inr rc)
    obtain r2 c2 where rc: "rc = (r2, c2)" by (cases rc)
    from same Inr rc obtain r2' where s': "?step' = Inr (r2', c2)"
      by (cases ?step') auto
    let ?r3 = "if truthyString (wireId b)
               then r2\<lparr>currentFlow := map_set (the (wireId b)) ?i (currentFlow r2)\<rparr> else r2"
    let ?r3' = "if truthyString (wireId b)
               then r2'\<lparr>currentFlow := map_set (the (wireId b)) ?i (currentFlow r2')\<rparr> else r2'"
    have u: "processBranches bc (x # xs) (results, circ) = processBranches bc xs (?r3, c2)"
      using Inr rc by (simp add: x Let_def)
    have u': "processBranches bc (x # xs) (results', circ) = processBranches bc xs (?r3', c2)"
      using s' by (simp add: x Let_def)
    show ?thesis
      unfolding u u' by (rule Cons.IH)
  qed
qed

lemma storeBranchCurrents_props:
  "sameUpToElectrical circ (snd (snd (storeBranchCurrents sol na (results, circ))))
   \<and> (fst (storeBranchCurrents sol na (results, circ)) = None \<longrightarrow>
        (res_isValid (fst (snd (storeBranchCurrents sol na (results, circ))))
           \<longleftrightarrow> res_isValid results)
      \<and> fromCache (fst (snd (storeBranchCurrents sol na (results, circ)))) = fromCache results)
   \<and> (fst (storeBranchCurrents sol na (results, circ)) \<noteq> None \<longrightarrow>
        fst (storeBranchCurrents sol na (results, circ))
          = Some (Error ''Parametros invalidos para calculo de potencia''))
   \<and> ((\<forall>d \<in> set (components circ). storedVoltageNumeric d) \<longrightarrow>
        fst (storeBranchCurrents sol na (results, circ)) = None)"
proof (cases "sol_branchCurrents sol")
  case None
  then show ?thesis by (simp add: storeBranchCurrents_def sameUpToElectrical_refl)
next
  case (Some bc)
  from processBranches_props [of circ bc "enumerate 0 (na_branches na)" results] Some
  show ?thesis by (simp add: storeBranchCurrents_def)
qed

lemma storeBranchCurrents_independent:
  "fst (storeBranchCurrents sol na (results, circ))
     = fst (storeBranchCurrents sol na (results', circ))
   \<and> snd (snd (storeBranchCurrents sol na (results, circ)))
       = snd (snd (storeBranchCurrents sol na (results', circ)))"
proof (cases "sol_branchCurrents sol")
  case None
  then show ?thesis by (simp add: storeBranchCurrents_def)
next
  case (Some bc)
  from processBranches_independent [of bc "enumerate 0 (na_branches na)" results circ results']
    Some
  show ?thesis by (simp add: storeBranchCurrents_def)
qed

lemma storeNodeVoltages_flags:
  "res_isValid (storeNodeVoltages sol na results) = res_isValid results"
  "fromCache (storeNodeVoltages sol na results) = fromCache results"
  by (simp_all add: storeNodeVoltages_def split: option.splits)

lemma pushWarnings_flags:
  "res_isValid (pushWarnings ws results) = res_isValid results"
  "fromCache (pushWarnings ws results) = fromCache results"
  by (simp_all add: pushWarnings_def)

lemma attachDiagnostics_flags:
  "res_isValid (attachDiagnostics env m results circ) = res_isValid results"
  "fromCache (attachDiagnostics env m results circ) = fromCache results"
  by (simp_all add: attachDiagnostics_def Let_def pushWarnings_flags split: option.splits)

lemma initialResults_flags:
  "res_isValid (initialResults now m na)" "fromCache (initialResults now m na) = None"
  by (simp_all add: initialResults_def)

text \<open>
  \<^verbatim>\<open>processResults\<close> either completes, or stops with the exception of the power
  computation; which of the two, and the circuit it leaves, do not depend on the clock.
\<close>

lemma processResults_cases:
  fixes env :: "('pa, 'tm) collaborators"
  obtains
    (completed) circ' where
      "sameUpToElectrical circ circ'"
      "\<And>t. \<exists>results. processResults env t sol circ na m = (Inr results, circ')
                    \<and> res_isValid results \<and> fromCache results = None"
  | (stopped) circ' c where
      "sameUpToElectrical circ circ'"
      "\<And>t. processResults env t sol circ na m
             = (Inl (Error ''Parametros invalidos para calculo de potencia''), circ')"
      "c \<in> set (components circ)" "\<not> storedVoltageNumeric c"
proof -
  let ?r = "\<lambda>t. storeNodeVoltages sol na (initialResults t m na) :: ('pa, 'tm) analysisResult"
  let ?run = "\<lambda>t. storeBranchCurrents sol na (?r t, circ)"
  let ?circ' = "snd (snd (?run 0))"
  have indep: "fst (?run t) = fst (?run 0)" "snd (snd (?run t)) = ?circ'" for t
    using storeBranchCurrents_independent [of sol na "?r t" circ "?r 0"] by simp_all
  have same: "sameUpToElectrical circ ?circ'"
    using storeBranchCurrents_props [of circ sol na "?r 0"] by simp
  show ?thesis
  proof (cases "fst (?run 0)")
    case None
    have "\<exists>results. processResults env t sol circ na m = (Inr results, ?circ')
                    \<and> res_isValid results \<and> fromCache results = None" for t
    proof -
      obtain e r2 c2 where br: "?run t = (e, r2, c2)"
        by (cases "?run t")
      from indep [of t] br None have e: "e = None" and c2: "c2 = ?circ'" by simp_all
      from storeBranchCurrents_props [of circ sol na "?r t"] br e have
        v: "res_isValid r2 \<longleftrightarrow> res_isValid (?r t)" and f: "fromCache r2 = fromCache (?r t)"
        by simp_all
      have 1: "processResults env t sol circ na m = (Inr (attachDiagnostics env m r2 c2), c2)"
        by (simp add: processResults_def br e)
      have 2: "res_isValid (attachDiagnostics env m r2 c2)"
        by (simp add: attachDiagnostics_flags v storeNodeVoltages_flags initialResults_flags)
      have 3: "fromCache (attachDiagnostics env m r2 c2) = None"
        by (simp add: attachDiagnostics_flags f storeNodeVoltages_flags initialResults_flags)
      from 1 2 3 c2 show ?thesis by simp
    qed
    with same show ?thesis by (rule completed)
  next
    case (Some e0)
    have e0: "e0 = Error ''Parametros invalidos para calculo de potencia''"
      using storeBranchCurrents_props [of circ sol na "?r 0"] Some by simp
    have "\<not> (\<forall>d \<in> set (components circ). storedVoltageNumeric d)"
      using storeBranchCurrents_props [of circ sol na "?r 0"] Some by auto
    then obtain c where c: "c \<in> set (components circ)" "\<not> storedVoltageNumeric c"
      by blast
    have "processResults env t sol circ na m
            = (Inl (Error ''Parametros invalidos para calculo de potencia''), ?circ')" for t
    proof -
      obtain e r2 c2 where br: "?run t = (e, r2, c2)"
        by (cases "?run t")
      from indep [of t] br Some e0 have
        "e = Some (Error ''Parametros invalidos para calculo de potencia'')" "c2 = ?circ'"
        by simp_all
      then show ?thesis by (simp add: processResults_def br)
    qed
    with same show ?thesis using c by (rule stopped)
  qed
qed


lemma invalidResult_invalid: "\<not> res_isValid (invalidResult err warns)"
  by (simp add: invalidResult_def)

lemma analyzeCircuit_hit:
  assumes "map_of (analysisCache az) (generateCircuitHash env circ) = Some cached"
  shows "analyzeCircuit env now az circ = (cached\<lparr>fromCache := Some True\<rparr>, az, circ)"
  using assms by (simp add: analyzeCircuit_def)

lemma analyzeCircuit_cases:
  fixes env :: "('pa, 'tm) collaborators"
  obtains
    (hit) cached where
      "map_of (analysisCache az) (generateCircuitHash env circ) = Some cached"
      "\<And>t. analyzeCircuit env t az circ = (cached\<lparr>fromCache := Some True\<rparr>, az, circ)"
  | (invalid) err warns where
      "map_of (analysisCache az) (generateCircuitHash env circ) = None"
      "\<And>t. analyzeCircuit env t az circ = (invalidResult err warns, az, circ)"
      "(\<exists>e. validateCircuit (checkBasicConnectivity env) circ = Inl e)
       \<or> (\<exists>v. validateCircuit (checkBasicConnectivity env) circ = Inr v \<and> \<not> v_isValid v)
       \<or> \<not> na_isValid (analyzeNodes env circ)
       \<or> (\<exists>err. buildSystemMatrices env circ (analyzeNodes env circ)
                   (selectOptimalMethod (analyzeNodes env circ)) = Inl err)
       \<or> (\<exists>mats. buildSystemMatrices env circ (analyzeNodes env circ)
                   (selectOptimalMethod (analyzeNodes env circ)) = Inr mats
                 \<and> \<not> sol_isValid (solve env mats))"
  | (success) mats validation where
      "map_of (analysisCache az) (generateCircuitHash env circ) = None"
      "validateCircuit (checkBasicConnectivity env) circ = Inr validation"
      "v_isValid validation"
      "na_isValid (analyzeNodes env circ)"
      "buildSystemMatrices env circ (analyzeNodes env circ)
         (selectOptimalMethod (analyzeNodes env circ)) = Inr mats"
      "sol_isValid (solve env mats)"
      "\<And>t. \<exists>results circ'.
         analyzeCircuit env t az circ
           = (results,
              az\<lparr>analysisCache := map_set (generateCircuitHash env circ) results (analysisCache az),
                 lastCircuitHash := Some (generateCircuitHash env circ)\<rparr>,
              circ')
         \<and> res_isValid results \<and> fromCache results = None \<and> sameUpToElectrical circ circ'"
  | (thrown) mats validation circ' c where
      "map_of (analysisCache az) (generateCircuitHash env circ) = None"
      "validateCircuit (checkBasicConnectivity env) circ = Inr validation"
      "v_isValid validation"
      "na_isValid (analyzeNodes env circ)"
      "buildSystemMatrices env circ (analyzeNodes env circ)
         (selectOptimalMethod (analyzeNodes env circ)) = Inr mats"
      "sol_isValid (solve env mats)"
      "\<And>t. analyzeCircuit env t az circ
             = (internalError (Error ''Parametros invalidos para calculo de potencia''), az, circ')"
      "sameUpToElectrical circ circ'"
      "c \<in> set (components circ)" "\<not> storedVoltageNumeric c"
proof (cases "map_of (analysisCache az) (generateCircuitHash env circ)")
  case (Some cached)
  then show ?thesis
    by (intro hit [of cached]) (simp_all add: analyzeCircuit_hit)
next
  case None
  note miss = None
  show ?thesis
  proof (cases "validateCircuit (checkBasicConnectivity env) circ")
    case (Inl e)
    show ?thesis
      by (rule invalid [of "Some (''Error interno del analizador: '' @ errorMessage e)" None])
         (simp_all add: analyzeCircuit_def miss Inl internalError_def)
  next
    case (Inr validation)
    note val = Inr
    show ?thesis
    proof (cases "v_isValid validation")
      case False
      show ?thesis
        by (rule invalid [of "Some (v_error validation)" "Some (v_warnings validation)"])
           (simp_all add: analyzeCircuit_def miss val False)
    next
      case True
      note vok = True
      let ?na = "analyzeNodes env circ"
      show ?thesis
      proof (cases "na_isValid ?na")
        case False
        show ?thesis
          by (rule invalid [of "na_error ?na" None])
             (simp_all add: analyzeCircuit_def miss val vok False Let_def)
      next
        case True
        note nok = True
        let ?m = "selectOptimalMethod ?na"
        show ?thesis
        proof (cases "buildSystemMatrices env circ ?na ?m")
          case (Inl err)
          show ?thesis
            by (rule invalid [of "Some err" None])
               (simp_all add: analyzeCircuit_def miss val vok nok Inl Let_def)
        next
          case (Inr mats)
          note mok = Inr
          show ?thesis
          proof (cases "sol_isValid (solve env mats)")
            case False
            show ?thesis
              by (rule invalid [of "sol_error (solve env mats)" None])
                 (simp_all add: analyzeCircuit_def miss val vok nok mok False Let_def)
          next
            case True
            note sok = True
            show ?thesis
            proof (cases rule: processResults_cases
                [where env = env and sol = "solve env mats" and circ = circ and na = ?na
                   and m = ?m])
              case (completed circ')
              have run: "\<exists>results circ'.
                  analyzeCircuit env t az circ
                    = (results,
                       az\<lparr>analysisCache :=
                            map_set (generateCircuitHash env circ) results (analysisCache az),
                          lastCircuitHash := Some (generateCircuitHash env circ)\<rparr>,
                       circ')
                  \<and> res_isValid results \<and> fromCache results = None
                  \<and> sameUpToElectrical circ circ'" for t
              proof -
                from completed(2) [of t] obtain results :: "('pa, 'tm) analysisResult" where
                  pr: "processResults env t (solve env mats) circ ?na ?m = (Inr results, circ')"
                  and v: "res_isValid results" and f: "fromCache results = None"
                  by blast
                let ?ws = "validateResultsWarnings env (componentValues results) circ'"
                let ?r = "if ?ws \<noteq> [] then pushWarnings ?ws results else results"
                have "analyzeCircuit env t az circ
                    = (?r,
                       az\<lparr>analysisCache :=
                            map_set (generateCircuitHash env circ) ?r (analysisCache az),
                          lastCircuitHash := Some (generateCircuitHash env circ)\<rparr>,
                       circ')"
                  by (simp add: analyzeCircuit_def miss val vok nok mok sok pr Let_def)
                moreover have "res_isValid ?r" "fromCache ?r = None"
                  using v f by (simp_all add: pushWarnings_flags)
                ultimately show ?thesis using completed(1) by blast
              qed
              show ?thesis
                by (rule success [of validation mats])
                   (simp_all add: miss val vok nok mok sok run)
            next
              case (stopped circ' c)
              have run: "analyzeCircuit env t az circ
                  = (internalError (Error ''Parametros invalidos para calculo de potencia''),
                     az, circ')" for t
                by (simp add: analyzeCircuit_def miss val vok nok mok sok stopped(2) Let_def)
              show ?thesis
                by (rule thrown [of validation mats circ' c])
                   (simp_all add: miss val vok nok mok sok run stopped)
            qed
          qed
        qed
      qed
    qed
  qed
qed

subsection \<open>The example circuit, evaluated\<close>

lemma validateComponent_V1:
  "validateComponent (mkComponent ''V1'' Voltage 12)
     = \<lparr>cv_isValid = True, cv_error = [], cv_warnings = []\<rparr>"
  by (simp add: validateComponent_def mkComponent_def)

lemma validateComponent_R0:
  "validateComponent (mkComponent ''R1'' Resistor 0)
     = \<lparr>cv_isValid = False, cv_error = ''La resistencia debe ser mayor que cero'',
        cv_warnings = [''Resistencia muy baja: puede causar problemas numericos'']\<rparr>"
  by (simp add: validateComponent_def mkComponent_def)


lemma loopCircuit_structure:
  "structuralErrors (components (loopCircuit r)) = []"
  "structuralWarnings (components (loopCircuit r))
     = [''No se encontro referencia a tierra: se asignara automaticamente'']"
  "countComponents (components (loopCircuit r))
     = \<lparr>count_voltageSources = 1, count_currentSources = 0, count_resistors = 1,
        count_grounds = 0, count_total = 2\<rparr>"
  by (simp_all add: structuralErrors_def structuralWarnings_def countComponents_def
      countType_def loopCircuit_def mkComponent_def)

lemma loopCircuit_bad_components:
  "componentErrors (components (loopCircuit 0)) = [''R1: La resistencia debe ser mayor que cero'']"
  "componentWarnings (components (loopCircuit 0))
     = [''Resistencia muy baja: puede causar problemas numericos'']"
  by (simp_all add: componentErrors_def componentWarnings_def loopCircuit_def
      validateComponent_V1 validateComponent_R0)
     (simp add: mkComponent_def)


lemma loopCircuit_bad_validation:
  "validateCircuit (checkBasicConnectivity loopCollaborators) (loopCircuit 0)
     = Inr \<lparr>v_isValid = False,
            v_error = ''R1: La resistencia debe ser mayor que cero'',
            v_warnings = [''No se encontro referencia a tierra: se asignara automaticamente'',
                          ''Resistencia muy baja: puede causar problemas numericos''],
            v_componentCounts =
              \<lparr>count_voltageSources = 1, count_currentSources = 0, count_resistors = 1,
               count_grounds = 0, count_total = 2\<rparr>\<rparr>"
  by (simp add: validateCircuit_def loopCircuit_structure loopCircuit_bad_components
      loopCollaborators_def)

lemma loopCircuit_bad_result:
  "analyzeCircuit loopCollaborators now emptyAnalyzer (loopCircuit 0)
     = (invalidResult (Some ''R1: La resistencia debe ser mayor que cero'')
          (Some [''No se encontro referencia a tierra: se asignara automaticamente'',
                 ''Resistencia muy baja: puede causar problemas numericos'']),
        emptyAnalyzer, loopCircuit 0)"
  by (simp add: analyzeCircuit_def emptyAnalyzer_def loopCircuit_bad_validation)









subsection \<open>Writes happen only on the successful path\<close>




text \<open>
  With a numeric stored voltage in every capacitor (and numbers in the other fields, as
  the record of components has them) the write loop does not throw: every invalid result
  then leaves the circuit as it was given. An invalid result after a write is the
  internal error raised by the power computation for a capacitor whose stored voltage is
  not a number.
\<close>

lemma numeric_voltages_keep_circuit:
  assumes "analyzeCircuit env now az circ = (res, az', circ')"
  shows "(list_all storedVoltageNumeric (components circ) \<and> \<not> res_isValid res
            \<longrightarrow> circ' = circ)
       \<and> (\<not> res_isValid res \<and> circ' \<noteq> circ \<longrightarrow>
            res = internalError (Error ''Parametros invalidos para calculo de potencia'')
          \<and> (\<exists>c \<in> set (components circ).
                comp_type c = Capacitor \<and> numberOf (js_or (voltage c) (Num 0)) = None))"
proof (cases rule: analyzeCircuit_cases [where env = env and az = az and circ = circ])
  case (hit cached)
  with assms show ?thesis by simp
next
  case (invalid err warns)
  with assms show ?thesis by simp
next
  case (success mats validation)
  from success(7) [of now] assms have "res_isValid res"
    by auto
  then show ?thesis by simp
next
  case (thrown mats validation circ'' c)
  from thrown(7) [of now] assms have
    res: "res = internalError (Error ''Parametros invalidos para calculo de potencia'')"
    by simp
  from thrown(10) have cap: "comp_type c = Capacitor"
    "numberOf (js_or (voltage c) (Num 0)) = None"
    by (simp_all add: storedVoltageNumeric_def)
  from thrown(9,10) have 3: "\<not> list_all storedVoltageNumeric (components circ)"
    by (auto simp: list_all_iff)
  from thrown(9) cap have 4: "\<exists>c \<in> set (components circ).
                comp_type c = Capacitor \<and> numberOf (js_or (voltage c) (Num 0)) = None"
    by blast
  from 3 4 res show ?thesis by blast
qed

subsection \<open>The second call\<close>




subsection \<open>Implausible resistances\<close>

text \<open>
  C9 (the claim as stated fails). The example loop with a resistor of 0 ohm: the analysis
  does not proceed to a successful result; it returns \<^verbatim>\<open>isValid = false\<close> with the error
  of the resistor, the warnings attached to the failure.
\<close>

theorem zero_resistance_rejected:
  "analyzeCircuit loopCollaborators 0 emptyAnalyzer (loopCircuit 0)
     = (invalidResult (Some ''R1: La resistencia debe ser mayor que cero'')
          (Some [''No se encontro referencia a tierra: se asignara automaticamente'',
                 ''Resistencia muy baja: puede causar problemas numericos'']),
        emptyAnalyzer, loopCircuit 0)
   \<and> \<not> res_isValid (invalidResult (Some ''R1: La resistencia debe ser mayor que cero'')
          (Some [''No se encontro referencia a tierra: se asignara automaticamente'',
                 ''Resistencia muy baja: puede causar problemas numericos'']) :: (unit, unit) analysisResult)"
  by (simp add: loopCircuit_bad_result invalidResult_def)

text \<open>
  C9 (as amended). A resistor whose value is zero or negative is a fatal validation
  error: \<^verbatim>\<open>validateComponent\<close> rejects it, and \<^verbatim>\<open>analyzeCircuit\<close> of a circuit that
  contains it (when no cached result exists for its fingerprint) returns an invalid
  result and leaves analyzer and circuit untouched. A positive resistance below 0.1 ohm
  is a non-fatal warning: the component stays valid and carries the warning.
\<close>

theorem nonpositive_resistance_is_fatal:
  assumes "c \<in> set (components circ)" and "comp_type c = Resistor"
    and "map_of (analysisCache az) (generateCircuitHash env circ) = None"
  shows "(value c \<le> 0 \<longrightarrow>
            \<not> cv_isValid (validateComponent c)
          \<and> \<not> res_isValid (fst (analyzeCircuit env now az circ))
          \<and> snd (analyzeCircuit env now az circ) = (az, circ))
       \<and> (0 < value c \<and> value c < 0.1 \<longrightarrow>
            cv_isValid (validateComponent c)
          \<and> cv_warnings (validateComponent c)
              = [''Resistencia muy baja: puede causar problemas numericos''])"
proof (intro conjI impI)
  assume neg: "value c \<le> 0"
  show bad: "\<not> cv_isValid (validateComponent c)"
    using assms(2) neg by (simp add: validateComponent_def)
  have "label c @ '': '' @ cv_error (validateComponent c) \<in> set (componentErrors (components circ))"
    using assms(1) bad by (auto simp: componentErrors_def Let_def)
  then have ne: "componentErrors (components circ) \<noteq> []"
    by auto
  have inv: "\<not> v_isValid validation"
    if "validateCircuit (checkBasicConnectivity env) circ = Inr validation" for validation
    using that ne by (auto simp: validateCircuit_def Let_def split: sum.splits)
  have "\<not> res_isValid (fst (analyzeCircuit env now az circ))
        \<and> snd (analyzeCircuit env now az circ) = (az, circ)"
  proof (cases rule: analyzeCircuit_cases [where env = env and az = az and circ = circ])
    case (hit cached)
    with assms(3) show ?thesis by simp
  next
    case (invalid err warns)
    from invalid(2) [of now] show ?thesis by (simp add: invalidResult_invalid)
  next
    case (success mats validation)
    with inv show ?thesis by blast
  next
    case (thrown mats validation circ' c)
    with inv show ?thesis by blast
  qed
  then show "\<not> res_isValid (fst (analyzeCircuit env now az circ))"
    "snd (analyzeCircuit env now az circ) = (az, circ)"
    by simp_all
next
  assume "0 < value c \<and> value c < 0.1"
  then show "cv_isValid (validateComponent c)"
    "cv_warnings (validateComponent c) = [''Resistencia muy baja: puede causar problemas numericos'']"
    using assms(2) by (simp_all add: validateComponent_def)
qed

theorem nonpositive_resistance_is_fatal_witness:
  "\<not> cv_isValid (validateComponent (mkComponent ''R1'' Resistor 0))
   \<and> \<not> res_isValid (fst (analyzeCircuit loopCollaborators 0 emptyAnalyzer (loopCircuit 0)))
   \<and> cv_isValid (validateComponent (mkComponent ''R1'' Resistor 0.05))"
proof -
  have 1: "mkComponent ''R1'' Resistor 0 \<in> set (components (loopCircuit 0))"
    by (simp add: loopCircuit_def)
  have 2: "comp_type (mkComponent ''R1'' Resistor 0) = Resistor"
    by (simp add: mkComponent_def)
  have 3: "map_of (analysisCache (emptyAnalyzer :: (unit, unit) analyzer))
             (generateCircuitHash loopCollaborators (loopCircuit 0)) = None"
    by (simp add: emptyAnalyzer_def)
  have 4: "value (mkComponent ''R1'' Resistor 0) \<le> 0"
    by (simp add: mkComponent_def)
  have a: "\<not> cv_isValid (validateComponent (mkComponent ''R1'' Resistor 0))
         \<and> \<not> res_isValid (fst (analyzeCircuit loopCollaborators 0 emptyAnalyzer (loopCircuit 0)))"
    using nonpositive_resistance_is_fatal [OF 1 2 3, of 0] 4 by blast
  have 5: "mkComponent ''R1'' Resistor 0.05 \<in> set (components (loopCircuit 0.05))"
    by (simp add: loopCircuit_def)
  have 6: "comp_type (mkComponent ''R1'' Resistor 0.05) = Resistor"
    by (simp add: mkComponent_def)
  have 7: "map_of (analysisCache (emptyAnalyzer :: (unit, unit) analyzer))
             (generateCircuitHash loopCollaborators (loopCircuit 0.05)) = None"
    by (simp add: emptyAnalyzer_def)
  have 8: "0 < value (mkComponent ''R1'' Resistor 0.05) \<and> value (mkComponent ''R1'' Resistor 0.05) < 0.1"
    by (simp add: mkComponent_def)
  have b: "cv_isValid (validateComponent (mkComponent ''R1'' Resistor 0.05))"
    using nonpositive_resistance_is_fatal [OF 5 6 7, of 0] 8 by blast
  from a b show ?thesis by simp
qed

section \<open>Sources in the electrical model\<close>

text \<open>
  C4 (the claim as stated fails). A 12 V source with 1 ohm internal resistance and
  compliance 13.2 V, excited by 2 A: the claim gives \<open>12 - 2 * 1 = 10\<close> V, but
  \<^verbatim>\<open>OhmLawHelper.calculateVoltage\<close> answers the nominal 12 V.
\<close>

theorem calculateVoltage_source_is_ideal:
  "calculateVoltage (Some exampleSource) (Some 2) = Inr (Num 12)
   \<and> claimedSourceVoltage exampleSource 2 = 10"
  by (simp add: calculateVoltage_def claimedSourceVoltage_def exampleSource_def or_else_def)

text \<open>
  C4 (as amended). \<^verbatim>\<open>OhmLawHelper.calculateVoltage\<close> treats a voltage source as ideal: for
  every excitation current it returns the nominal value unchanged, without the drop over
  the internal resistance and without the compliance clamp. The drop and the clamp are
  applied by \<^verbatim>\<open>VoltageSource.getOutputVoltage\<close> only: for an enabled DC source with a
  non-negative internal resistance it returns the nominal value minus the source's own
  output current times the internal resistance, clamped to plus or minus the compliance.
  For a current source \<^verbatim>\<open>OhmLawHelper.calculateCurrent\<close> returns the nominal current
  unchanged.
\<close>

theorem source_models:
  fixes c :: "'a component_scheme" and src :: voltageSource
  shows "(comp_type c = Voltage \<longrightarrow> calculateVoltage (Some c) (Some i) = Inr (Num (value c)))
       \<and> (comp_type c = Current \<longrightarrow> calculateCurrent (Some c) (Some v) = Inr (value c))
       \<and> (isEnabled src \<and> sourceType src = Dc \<and> internalResistance src = Some r \<and> 0 \<le> r \<longrightarrow>
            fst (getOutputVoltage src t) = claimedSourceVoltage src (outputCurrent src)
          \<and> fst (getOutputVoltage src t)
              = max (- compliance src) (min (compliance src) (value src - outputCurrent src * r)))"
  by (auto simp: calculateVoltage_def calculateCurrent_def getOutputVoltage_def
      waveformVoltage_def claimedSourceVoltage_def or_else_def Let_def)

theorem source_models_witness:
  "calculateVoltage (Some exampleSource) (Some 2) = Inr (Num 12)
   \<and> calculateCurrent (Some (mkComponent ''I1'' Current 0.001)) (Some 5) = Inr 0.001
   \<and> fst (getOutputVoltage exampleSource 0) = 10"
proof -
  have v: "comp_type exampleSource = Voltage" "value exampleSource = 12"
    by (simp_all add: exampleSource_def)
  have i: "comp_type (mkComponent ''I1'' Current 0.001) = Current"
    "value (mkComponent ''I1'' Current 0.001) = 0.001"
    by (simp_all add: mkComponent_def)
  have s: "isEnabled exampleSource \<and> sourceType exampleSource = Dc
           \<and> internalResistance exampleSource = Some 1 \<and> (0::real) \<le> 1"
    by (simp add: exampleSource_def)
  have 1: "calculateVoltage (Some exampleSource) (Some 2) = Inr (Num 12)"
    using source_models [of exampleSource 2 0 exampleSource 1 0] v by simp
  have 2: "calculateCurrent (Some (mkComponent ''I1'' Current 0.001)) (Some 5) = Inr 0.001"
    using source_models [of "mkComponent ''I1'' Current 0.001" 0 5 exampleSource 1 0] i by simp
  have "fst (getOutputVoltage exampleSource 0)
          = max (- compliance exampleSource)
              (min (compliance exampleSource)
                 (value exampleSource - outputCurrent exampleSource * 1))"
    using source_models [of exampleSource 2 0 exampleSource 1 0] s by blast
  then have 3: "fst (getOutputVoltage exampleSource 0) = 10"
    by (simp add: exampleSource_def)
  from 1 2 3 show ?thesis by simp
qed

section \<open>Choice of the solving algorithm for a built system\<close>

lemma identity2: "scaledIdentity 2 2 = [[2, 0], [0, 2]]"
  by (simp add: scaledIdentity_def upt_rec)

lemma identity4: "scaledIdentity 4 2 = [[2, 0, 0, 0], [0, 2, 0, 0], [0, 0, 2, 0], [0, 0, 0, 2]]"
  by (simp add: scaledIdentity_def upt_rec)

lemma spd2: "checkSymmetry [[2, 0], [0, 2]]" "isPositiveDefiniteMatrix [[2, 0], [0, 2]]"
  "calculateDeterminant_builder [[2, 0], [0, 2]] = 4" "checkDiagonalDominance [[2, 0], [0, 2]]"
  by (simp_all add: checkSymmetry_def isPositiveDefiniteMatrix_def calculateDeterminant_builder_def
      extractSubmatrix_def checkDiagonalDominance_def builderTolerance_def upt_rec)

lemma spd4: "checkSymmetry [[2, 0, 0, 0], [0, 2, 0, 0], [0, 0, 2, 0], [0, 0, 0, 2]]"
  "isPositiveDefiniteMatrix [[2, 0, 0, 0], [0, 2, 0, 0], [0, 0, 2, 0], [0, 0, 0, 2]]"
  "calculateDeterminant_builder [[2, 0, 0, 0], [0, 2, 0, 0], [0, 0, 2, 0], [0, 0, 0, 2]] = 16"
  "checkDiagonalDominance [[2, 0, 0, 0], [0, 2, 0, 0], [0, 0, 2, 0], [0, 0, 0, 2]]"
  by (simp_all add: checkSymmetry_def isPositiveDefiniteMatrix_def calculateDeterminant_builder_def
      extractSubmatrix_def checkDiagonalDominance_def builderTolerance_def
      approximateDeterminant_def upt_rec)

text \<open>
  C7 (the claim as stated fails). The 2 by 2 matrix \<open>2 I\<close> is symmetric and positive
  definite, yet for the system built from it the solver selects Cramer's rule, which
  comes first for \<open>n \<le> 3\<close>. For the 4 by 4 matrix \<open>2 I\<close>, also symmetric and positive
  definite, Gaussian elimination is selected: \<^verbatim>\<open>checkMatrixConditioning\<close> never assigns
  the \<^verbatim>\<open>isPositiveDefinite\<close> property that the Cholesky branch tests.
\<close>

theorem spd_matrix_not_solved_by_cholesky:
  "checkSymmetry [[2, 0], [0, 2]] \<and> isPositiveDefiniteMatrix [[2, 0], [0, 2]]
   \<and> selectSolverMethod (1 / 10 ^ 10) (builtSystem Nodal [[2, 0], [0, 2]] [1, 1]) = Inr Cramer
   \<and> checkSymmetry [[2, 0, 0, 0], [0, 2, 0, 0], [0, 0, 2, 0], [0, 0, 0, 2]]
   \<and> isPositiveDefiniteMatrix [[2, 0, 0, 0], [0, 2, 0, 0], [0, 0, 2, 0], [0, 0, 0, 2]]
   \<and> selectSolverMethod (1 / 10 ^ 10)
        (builtSystem Nodal [[2, 0, 0, 0], [0, 2, 0, 0], [0, 0, 2, 0], [0, 0, 0, 2]] [1, 1, 1, 1])
       = Inr DirectElimination"
  by (simp add: spd2 spd4 selectSolverMethod_def builtSystem_def checkMatrixConditioning_def
      emptyMatrices_def builderTolerance_def truthyFlag_def truthyString_def Let_def)

text \<open>
  C7 (as amended). For a system that is not tagged series or parallel and that Cramer's
  rule does not take first (that is, \<open>n > 3\<close>, or no determinant is recorded, or its
  magnitude is not above the tolerance): when the conditioning data flags the matrix as
  symmetric and as positive definite, Cholesky decomposition is selected; otherwise,
  when the conditioning data is absent or carries no warning (neither the near-singular
  one nor the one for a matrix that is not diagonally dominant), Gaussian elimination
  with partial pivoting is selected for \<open>n \<le> 10\<close> and LU decomposition for \<open>n > 10\<close>.
\<close>

theorem selectSolverMethod_order:
  assumes "systemMatrix mats = Some M"
    and "analysisMethod mats \<noteq> Series" and "analysisMethod mats \<noteq> Parallel"
    and "\<not> (length M \<le> 3
            \<and> (\<exists>c d. conditioning mats = Some c \<and> determinant c = Some d \<and> \<bar>d\<bar> > tol))"
  shows "((\<exists>c. conditioning mats = Some c \<and> isSymmetric c = Some True
                \<and> isPositiveDefinite c = Some True)
            \<longrightarrow> selectSolverMethod tol mats = Inr Cholesky)
       \<and> (\<not> (\<exists>c. conditioning mats = Some c \<and> isSymmetric c = Some True
                   \<and> isPositiveDefinite c = Some True)
          \<and> (conditioning mats = None
               \<or> (\<exists>c. conditioning mats = Some c \<and> (warning c = None \<or> warning c = Some [])))
            \<longrightarrow> selectSolverMethod tol mats
                  = Inr (if length M \<le> 10 then DirectElimination else LuDecomposition))"
  using assms
  by (auto simp: selectSolverMethod_def truthyFlag_def truthyString_def Let_def
           split: option.splits)

theorem selectSolverMethod_order_witness:
  "selectSolverMethod (1 / 10 ^ 10)
     ((emptyMatrices Nodal)
        \<lparr>systemMatrix := Some [[2, 0, 0, 0], [0, 2, 0, 0], [0, 0, 2, 0], [0, 0, 0, 2]],
         conditioning := Some (emptyConditioning\<lparr>isSymmetric := Some True,
                                                  isPositiveDefinite := Some True\<rparr>)\<rparr>)
     = Inr Cholesky
   \<and> selectSolverMethod (1 / 10 ^ 10)
        (builtSystem Nodal [[2, 0, 0, 0], [0, 2, 0, 0], [0, 0, 2, 0], [0, 0, 0, 2]] [1, 1, 1, 1])
       = Inr DirectElimination"
proof -
  let ?M = "[[2, 0, 0, 0], [0, 2, 0, 0], [0, 0, 2, 0], [0, 0, 0, 2 :: real]]"
  let ?flagged = "(emptyMatrices Nodal)
        \<lparr>systemMatrix := Some ?M,
         conditioning := Some (emptyConditioning\<lparr>isSymmetric := Some True,
                                                  isPositiveDefinite := Some True\<rparr>)\<rparr>"
  let ?built = "builtSystem Nodal ?M [1, 1, 1, 1]"
  have f: "systemMatrix ?flagged = Some ?M" "analysisMethod ?flagged \<noteq> Series"
    "analysisMethod ?flagged \<noteq> Parallel"
    "\<not> (length ?M \<le> 3
        \<and> (\<exists>c d. conditioning ?flagged = Some c \<and> determinant c = Some d \<and> \<bar>d\<bar> > 1 / 10 ^ 10))"
    by (simp_all add: emptyMatrices_def)
  have "\<exists>c. conditioning ?flagged = Some c \<and> isSymmetric c = Some True
            \<and> isPositiveDefinite c = Some True"
    by (simp add: emptyMatrices_def emptyConditioning_def)
  with selectSolverMethod_order [OF f] have 1: "selectSolverMethod (1 / 10 ^ 10) ?flagged = Inr Cholesky"
    by blast
  have bc: "conditioning ?built
              = Some \<lparr>determinant = Some 16, rank = Some (estimateRank ?M),
                      isDiagonallyDominant = Some True, isSymmetric = Some True,
                      isPositiveDefinite = None, isSingular = None, warning = None\<rparr>"
    by (simp add: builtSystem_def checkMatrixConditioning_def emptyMatrices_def spd4
        builderTolerance_def Let_def)
  have b: "systemMatrix ?built = Some ?M" "analysisMethod ?built \<noteq> Series"
    "analysisMethod ?built \<noteq> Parallel"
    "\<not> (length ?M \<le> 3
        \<and> (\<exists>c d. conditioning ?built = Some c \<and> determinant c = Some d \<and> \<bar>d\<bar> > 1 / 10 ^ 10))"
    by (simp_all add: builtSystem_def checkMatrixConditioning_def emptyMatrices_def Let_def)
  have "\<not> (\<exists>c. conditioning ?built = Some c \<and> isSymmetric c = Some True
               \<and> isPositiveDefinite c = Some True)
        \<and> (conditioning ?built = None
             \<or> (\<exists>c. conditioning ?built = Some c \<and> (warning c = None \<or> warning c = Some [])))"
    by (simp add: bc)
  with selectSolverMethod_order [OF b] have
    "selectSolverMethod (1 / 10 ^ 10) ?built
       = Inr (if length ?M \<le> 10 then DirectElimination else LuDecomposition)"
    by blast
  then have 2: "selectSolverMethod (1 / 10 ^ 10) ?built = Inr DirectElimination"
    by simp
  from 1 2 show ?thesis by simp
qed

section \<open>Failure of the direct solving methods\<close>

text \<open>
  The arithmetic at a few known values: \<^verbatim>\<open>0.1 + 0.2\<close> is \<^verbatim>\<open>0.30000000000000004\<close>, one third
  times three is 1, \<open>2 ^ 53 + 1\<close> is not a double and rounds to \<open>2 ^ 53\<close>, the tolerance
  \<^verbatim>\<open>1e-10\<close>, overflow, division by zero, and the sign of a zero difference.
\<close>

lemma double_examples:
  "dadd (ddiv (fromInt 1) (fromInt 10)) (ddiv (fromInt 2) (fromInt 10))
     = Finite False 5404319552844596 (- 54)"
  "dmul (ddiv (fromInt 1) (fromInt 3)) (fromInt 3) = fromInt 1"
  "fromInt (2 ^ 53 + 1) = fromInt (2 ^ 53)"
  "solverTolerance = Finite False 7737125245533627 (- 86)"
  "dmul (fromInt (10 ^ 200)) (fromInt (10 ^ 200)) = Infinity False"
  "ddiv (fromInt 1) dzero = Infinity False"
  "ddiv (fromInt 1) (dneg dzero) = Infinity True"
  "ddiv dzero dzero = NaN"
  "dsub (fromInt 7) (fromInt 7) = dzero"
  "dless (dabs NaN) solverTolerance = False"
  by code_simp+

lemma foldl_err_append:
  "foldl_err f a (xs @ ys)
     = (case foldl_err f a xs of Inl e \<Rightarrow> Inl e | Inr a' \<Rightarrow> foldl_err f a' ys)"
  by (induction xs arbitrary: a) (simp_all split: sum.splits)

lemma upt_split_at:
  assumes "i < n"
  shows "[0..<n] = [0..<i] @ i # [Suc i..<n]"
proof -
  have "[0..<i + (n - i)] = [0..<i] @ [i..<i + (n - i)]"
    by (rule upt_add_eq_append) simp
  with assms have "[0..<n] = [0..<i] @ [i..<n]" by simp
  with assms show ?thesis by (simp add: upt_conv_Cons)
qed

lemma foldl_err_stops:
  assumes "i < n" and "foldl_err f a [0..<i] = Inr a'" and "f a' i = Inl e"
  shows "foldl_err f a [0..<n] = Inl e"
  using assms by (simp add: upt_split_at [OF assms(1)] foldl_err_append)

lemma gaussStep_small_pivot:
  "dless (dabs (pivoted M i n ! i ! i)) tol
     \<Longrightarrow> gaussStep tol n M i
         = Inl (Error (''Elemento pivote muy pequeno en posicion '' @ position i))"
  by (simp add: gaussStep_def)

lemma luStep_small_pivot:
  "dless (dabs (pivoted U i n ! i ! i)) tol
     \<Longrightarrow> luStep tol n (L, U) i
         = Inl (Error (''Pivote muy pequeno en descomposicion LU: posicion '' @ position i))"
  by (simp add: luStep_def Let_def)

subsection \<open>Two singular systems and one with doubled rows, evaluated\<close>

lemma scaledColumns_singular: "singularSystem (map (map of_int) scaledColumns)"
proof -
  let ?R = "map (map of_int) scaledColumns :: real list list"
  have two: "{..<2::nat} = {0, 1}" by auto
  have "length [1000000, - 1 :: real] = length ?R" by (simp add: scaledColumns_def)
  moreover have "\<exists>j < length ?R. [1000000, - 1 :: real] ! j \<noteq> 0"
    by (rule exI [of _ 0]) (simp add: scaledColumns_def)
  moreover have "\<forall>r < length ?R. rowForm (?R ! r) [1000000, - 1] = 0"
    by (simp add: rowForm_def two less_Suc_eq numeral_2_eq_2 all_conj_distrib scaledColumns_def)
  ultimately show ?thesis
    unfolding singularSystem_def by blast
qed

lemma onesSystem_singular: "singularSystem (map (map of_int) onesSystem)"
proof -
  let ?R = "map (map of_int) onesSystem :: real list list"
  have R: "?R = replicate 5 (replicate 5 1)" by (simp add: onesSystem_def)
  have five: "{..<5::nat} = {0, 1, 2, 3, 4}" by auto
  have "length [1, - 1, 0, 0, 0 :: real] = length ?R" by (simp add: R)
  moreover have "\<exists>j < length ?R. [1, - 1, 0, 0, 0 :: real] ! j \<noteq> 0"
    by (rule exI [of _ 0]) (simp add: R)
  moreover have "\<forall>r < length ?R. rowForm (?R ! r) [1, - 1, 0, 0, 0] = 0"
    unfolding R by (simp add: rowForm_def five)
  ultimately show ?thesis
    unfolding singularSystem_def by blast
qed

lemma scaledColumns_doubles:
  "map (map fromInt) scaledColumns
     = [[Finite False 6192449487634432 (- 48), Finite False 5905580032000000 (- 28)],
        [Finite False 8444249301319680 (- 49), Finite False 8053063680000000 (- 29)]]"
  by code_simp

lemma scaledColumns_exact:
  "map (map valueOf) (map (map fromInt) scaledColumns)
     = map (map (\<lambda>z. Some (of_int z))) scaledColumns"
  unfolding scaledColumns_doubles by (simp add: valueOf_def scaledColumns_def)

lemma scaledColumns_gauss:
  "forwardElimination solverTolerance 2
     (augmentSystem (map (map fromInt) scaledColumns) [fromInt 1, fromInt 1])
   = Inr [[fromInt 22, fromInt 22000000, fromInt 1],
          [Finite False 4503599627370496 (- 101), Finite False 4503599627370496 (- 81),
           Finite False 5731854071198814 (- 54)]]"
  by code_simp

lemma scaledColumns_overflow:
  "gaussianElimination solverTolerance (map (map fromInt) scaledColumns)
     [dzero, fromInt (2 ^ 1000)]
   = \<lparr>sr_isValid = True, sr_error = None,
      sr_values = Some [Infinity True, Infinity False],
      sr_method = Some ''gaussian_elimination''\<rparr>"
  by code_simp

lemma scaledColumns_lu: "isl (luFactorize solverTolerance (map (map fromInt) scaledColumns)) = False"
  by code_simp

lemma onesSystem_cramer:
  "cramerRule solverTolerance (map (map fromInt) onesSystem) (replicate 5 (fromInt 1))
     = \<lparr>sr_isValid = True, sr_error = None, sr_values = Some (replicate 5 (fromInt 1)),
        sr_method = Some ''cramer_rule''\<rparr>"
  by code_simp

lemma position_1: "position 1 = ''(1, 1)''" "position (Suc 0) = ''(1, 1)''"
  by code_simp+

lemma doubled_rows_gauss:
  "foldl_err (gaussStep solverTolerance 2)
     (augmentSystem [[fromInt 1, fromInt 2], [fromInt 2, fromInt 4]] [fromInt 1, fromInt 1]) [0..<1]
   = Inr [[fromInt 2, fromInt 4, fromInt 1], [dzero, dzero, ddiv (fromInt 1) (fromInt 2)]]"
  "dless (dabs (pivoted [[fromInt 2, fromInt 4, fromInt 1],
                         [dzero, dzero, ddiv (fromInt 1) (fromInt 2)]] 1 2 ! 1 ! 1))
     solverTolerance"
  by code_simp+

lemma doubled_rows_lu:
  "foldl_err (luStep solverTolerance 2)
     (createIdentityMatrix 2, [[fromInt 1, fromInt 2], [fromInt 2, fromInt 4]]) [0..<1]
   = Inr ([[fromInt 1, dzero], [ddiv (fromInt 1) (fromInt 2), fromInt 1]],
          [[fromInt 2, fromInt 4], [dzero, dzero]])"
  "dless (dabs (pivoted [[fromInt 2, fromInt 4], [dzero, dzero]] 1 2 ! 1 ! 1)) solverTolerance"
  by code_simp+

lemma doubled_rows_det:
  "dless (dabs (calculateDeterminant_solver [[fromInt 1, fromInt 2], [fromInt 2, fromInt 4]]))
     solverTolerance"
  by code_simp

subsection \<open>The results of the three methods\<close>

text \<open>
  C6 (the claim as stated fails). The matrix with rows \<open>(22, 22000000)\<close> and
  \<open>(15, 15000000)\<close> is singular and its entries are doubles, but the elimination leaves
  the second pivot \<open>2 ^ - 29\<close>, which is not below the tolerance: Gaussian elimination and
  LU decomposition both return a valid result for it, and with the right-hand side
  \<open>(0, 2 ^ 1000)\<close> the solution that Gaussian elimination reports as valid is
  \<open>(- Infinity, Infinity)\<close>. The 5 by 5 matrix of ones is
  singular, but Cramer's rule, which above 4 by 4 takes the product of the diagonal for
  the determinant, returns a valid result for it.
\<close>

theorem singular_systems_accepted:
  "singularSystem (map (map of_int) scaledColumns)
   \<and> map (map valueOf) (map (map fromInt) scaledColumns)
       = map (map (\<lambda>z. Some (of_int z))) scaledColumns
   \<and> map_sum id (\<lambda>M. valueOf (M ! 1 ! 1))
        (forwardElimination solverTolerance 2
           (augmentSystem (map (map fromInt) scaledColumns) [fromInt 1, fromInt 1]))
       = Inr (Some (1 / 2 ^ 29))
   \<and> sr_isValid (gaussianElimination solverTolerance (map (map fromInt) scaledColumns)
                   [fromInt 1, fromInt 1])
   \<and> sr_isValid (luDecomposition solverTolerance (map (map fromInt) scaledColumns)
                   [fromInt 1, fromInt 1])
   \<and> gaussianElimination solverTolerance (map (map fromInt) scaledColumns)
         [dzero, fromInt (2 ^ 1000)]
       = \<lparr>sr_isValid = True, sr_error = None,
          sr_values = Some [Infinity True, Infinity False],
          sr_method = Some ''gaussian_elimination''\<rparr>
   \<and> singularSystem (map (map of_int) onesSystem)
   \<and> cramerRule solverTolerance (map (map fromInt) onesSystem) (replicate 5 (fromInt 1))
       = \<lparr>sr_isValid = True, sr_error = None, sr_values = Some (replicate 5 (fromInt 1)),
          sr_method = Some ''cramer_rule''\<rparr>"
proof -
  have len: "length (map (map fromInt) scaledColumns) = 2"
    by (simp add: scaledColumns_def)
  have g: "sr_isValid (gaussianElimination solverTolerance (map (map fromInt) scaledColumns)
                   [fromInt 1, fromInt 1])"
    by (simp add: gaussianElimination_def len scaledColumns_gauss del: length_map)
  obtain L U where
    "luFactorize solverTolerance (map (map fromInt) scaledColumns) = Inr (L, U)"
    using scaledColumns_lu
    by (cases "luFactorize solverTolerance (map (map fromInt) scaledColumns)") auto
  then have l: "sr_isValid (luDecomposition solverTolerance (map (map fromInt) scaledColumns)
                   [fromInt 1, fromInt 1])"
    by (simp add: luDecomposition_def Let_def)
  have p: "map_sum id (\<lambda>M. valueOf (M ! 1 ! 1))
        (forwardElimination solverTolerance 2
           (augmentSystem (map (map fromInt) scaledColumns) [fromInt 1, fromInt 1]))
       = Inr (Some (1 / 2 ^ 29))"
    by (simp add: scaledColumns_gauss valueOf_def)
  from scaledColumns_singular scaledColumns_exact p g l scaledColumns_overflow
    onesSystem_singular onesSystem_cramer
  show ?thesis by blast
qed

text \<open>
  C6 (as amended). For a square system: when the pivot of step \<open>i\<close>, taken after the
  steps before it have gone through, has magnitude below the tolerance, Gaussian
  elimination with partial pivoting and LU decomposition each return an invalid result
  that carries the pivot error message with the position of that pivot; Cramer's rule
  returns an invalid result with its determinant message when the determinant it
  computes has magnitude below the tolerance. In each case the reported solution vector
  is all zeros, so it holds neither \<^verbatim>\<open>NaN\<close> nor an infinity.
\<close>

theorem direct_methods_fail_explicitly:
  assumes "squareSystem A b" and "i < length A"
  shows "(foldl_err (gaussStep tol (length A)) (augmentSystem A b) [0..<i] = Inr M
          \<and> dless (dabs (pivoted M i (length A) ! i ! i)) tol \<longrightarrow>
            gaussianElimination tol A b
              = \<lparr>sr_isValid = False,
                 sr_error = Some (''Error en eliminacion gaussiana: ''
                                  @ ''Elemento pivote muy pequeno en posicion '' @ position i),
                 sr_values = Some (replicate (length A) dzero), sr_method = None\<rparr>)
       \<and> (foldl_err (luStep tol (length A)) (createIdentityMatrix (length A), A) [0..<i]
            = Inr (L, U)
          \<and> dless (dabs (pivoted U i (length A) ! i ! i)) tol \<longrightarrow>
            luDecomposition tol A b
              = \<lparr>sr_isValid = False,
                 sr_error = Some (''Error en descomposicion Cholesky: ''
                                  @ ''Pivote muy pequeno en descomposicion LU: posicion ''
                                  @ position i),
                 sr_values = Some (replicate (length A) dzero), sr_method = None\<rparr>)
       \<and> (dless (dabs (calculateDeterminant_solver A)) tol \<longrightarrow>
            cramerRule tol A b
              = \<lparr>sr_isValid = False,
                 sr_error = Some (''Error en regla de Cramer: ''
                                  @ ''Determinante muy pequeno para regla de Cramer''),
                 sr_values = Some (replicate (length A) dzero), sr_method = None\<rparr>)
       \<and> list_all isFiniteNumber (replicate (length A) dzero)"
proof (intro conjI impI)
  assume h: "foldl_err (gaussStep tol (length A)) (augmentSystem A b) [0..<i] = Inr M
          \<and> dless (dabs (pivoted M i (length A) ! i ! i)) tol"
  then have "gaussStep tol (length A) M i
               = Inl (Error (''Elemento pivote muy pequeno en posicion '' @ position i))"
    by (simp add: gaussStep_small_pivot)
  with h assms(2) have "forwardElimination tol (length A) (augmentSystem A b)
               = Inl (Error (''Elemento pivote muy pequeno en posicion '' @ position i))"
    unfolding forwardElimination_def by (intro foldl_err_stops [of i _ _ _ M]) simp_all
  then show "gaussianElimination tol A b
              = \<lparr>sr_isValid = False,
                 sr_error = Some (''Error en eliminacion gaussiana: ''
                                  @ ''Elemento pivote muy pequeno en posicion '' @ position i),
                 sr_values = Some (replicate (length A) dzero), sr_method = None\<rparr>"
    by (simp add: gaussianElimination_def failedResult_def)
next
  assume h: "foldl_err (luStep tol (length A)) (createIdentityMatrix (length A), A) [0..<i]
            = Inr (L, U)
          \<and> dless (dabs (pivoted U i (length A) ! i ! i)) tol"
  then have "luStep tol (length A) (L, U) i
               = Inl (Error (''Pivote muy pequeno en descomposicion LU: posicion '' @ position i))"
    by (simp add: luStep_small_pivot)
  with h assms(2) have "luFactorize tol A
               = Inl (Error (''Pivote muy pequeno en descomposicion LU: posicion '' @ position i))"
    unfolding luFactorize_def by (intro foldl_err_stops [of i _ _ _ "(L, U)"]) simp_all
  then show "luDecomposition tol A b
              = \<lparr>sr_isValid = False,
                 sr_error = Some (''Error en descomposicion Cholesky: ''
                                  @ ''Pivote muy pequeno en descomposicion LU: posicion ''
                                  @ position i),
                 sr_values = Some (replicate (length A) dzero), sr_method = None\<rparr>"
    by (simp add: luDecomposition_def failedResult_def)
next
  assume "dless (dabs (calculateDeterminant_solver A)) tol"
  then show "cramerRule tol A b
              = \<lparr>sr_isValid = False,
                 sr_error = Some (''Error en regla de Cramer: ''
                                  @ ''Determinante muy pequeno para regla de Cramer''),
                 sr_values = Some (replicate (length A) dzero), sr_method = None\<rparr>"
    by (simp add: cramerRule_def failedResult_def)
next
  show "list_all isFiniteNumber (replicate (length A) dzero)"
    by (simp add: list_all_iff isFiniteNumber_def dzero_def)
qed

theorem direct_methods_fail_explicitly_witness:
  "gaussianElimination solverTolerance
     [[fromInt 1, fromInt 2], [fromInt 2, fromInt 4]] [fromInt 1, fromInt 1]
     = \<lparr>sr_isValid = False,
        sr_error = Some (''Error en eliminacion gaussiana: ''
                         @ ''Elemento pivote muy pequeno en posicion (1, 1)''),
        sr_values = Some [dzero, dzero], sr_method = None\<rparr>
   \<and> luDecomposition solverTolerance
       [[fromInt 1, fromInt 2], [fromInt 2, fromInt 4]] [fromInt 1, fromInt 1]
     = \<lparr>sr_isValid = False,
        sr_error = Some (''Error en descomposicion Cholesky: ''
                         @ ''Pivote muy pequeno en descomposicion LU: posicion (1, 1)''),
        sr_values = Some [dzero, dzero], sr_method = None\<rparr>
   \<and> cramerRule solverTolerance
       [[fromInt 1, fromInt 2], [fromInt 2, fromInt 4]] [fromInt 1, fromInt 1]
     = \<lparr>sr_isValid = False,
        sr_error = Some (''Error en regla de Cramer: ''
                         @ ''Determinante muy pequeno para regla de Cramer''),
        sr_values = Some [dzero, dzero], sr_method = None\<rparr>"
proof -
  let ?A = "[[fromInt 1, fromInt 2], [fromInt 2, fromInt 4]]"
  let ?b = "[fromInt 1, fromInt 1]"
  have sq: "squareSystem ?A ?b" by (simp add: squareSystem_def)
  have i: "1 < length ?A" by simp
  note all = direct_methods_fail_explicitly
      [OF sq i, of solverTolerance
         "[[fromInt 2, fromInt 4, fromInt 1], [dzero, dzero, ddiv (fromInt 1) (fromInt 2)]]"
         "[[fromInt 1, dzero], [ddiv (fromInt 1) (fromInt 2), fromInt 1]]"
         "[[fromInt 2, fromInt 4], [dzero, dzero]]"]
  have len: "length ?A = 2" by simp
  from all doubled_rows_gauss have 1: "gaussianElimination solverTolerance ?A ?b
     = \<lparr>sr_isValid = False,
        sr_error = Some (''Error en eliminacion gaussiana: ''
                         @ ''Elemento pivote muy pequeno en posicion '' @ position 1),
        sr_values = Some (replicate (length ?A) dzero), sr_method = None\<rparr>"
    unfolding len by blast
  from all doubled_rows_lu have 2: "luDecomposition solverTolerance ?A ?b
     = \<lparr>sr_isValid = False,
        sr_error = Some (''Error en descomposicion Cholesky: ''
                         @ ''Pivote muy pequeno en descomposicion LU: posicion '' @ position 1),
        sr_values = Some (replicate (length ?A) dzero), sr_method = None\<rparr>"
    unfolding len by blast
  from all doubled_rows_det have 3: "cramerRule solverTolerance ?A ?b
     = \<lparr>sr_isValid = False,
        sr_error = Some (''Error en regla de Cramer: ''
                         @ ''Determinante muy pequeno para regla de Cramer''),
        sr_values = Some (replicate (length ?A) dzero), sr_method = None\<rparr>"
    by blast
  from 1 2 3 show ?thesis
    by (simp add: position_1 numeral_2_eq_2)
qed

end
